theory Spec2Isabelle
  imports Complex_Main "HOL-Library.Log_Nat" "HOL-Library.Sublist"
begin

section \<open>JavaScript numbers\<close>

text \<open>
  The scoring engine (\<^verbatim>\<open>utils/ayush-algorithms\<close>) computes with JavaScript numbers,
  the binary64 floating-point numbers.  A finite number is modelled by the rational it
  is; the three values that are not finite are constructors of their own, because the
  code can produce them (a division by a zero total or a zero height) and can receive
  them (\<^verbatim>\<open>parseFloat\<close> of an empty form field is \<^verbatim>\<open>NaN\<close>).  Every arithmetic
  operation rounds its exact result to the nearest binary64 number, as the code does.
  The sign of zero is not modelled: a zero divisor is the positive zero, which is the
  only zero the divisors of this code can be (a sum of non-negative points, a square).
\<close>

datatype number = Num rat | PosInf | NegInf | NaN

text \<open>The exponent of a positive rational: \<open>2 ^ ilog2 a \<le> a < 2 ^ (ilog2 a + 1)\<close>.\<close>

definition ilog2 :: "rat \<Rightarrow> int" where
  "ilog2 a = (if 1 \<le> a then bitlen \<lfloor>a\<rfloor> - 1 else - bitlen (\<lceil>1 / a\<rceil> - 1))"

text \<open>The nearest integer, a half rounded to the even neighbour.\<close>

definition round_even :: "rat \<Rightarrow> int" where
  "round_even x =
     (let n = \<lfloor>x\<rfloor>; f = x - of_int n
      in if f < 1 / 2 then n else if 1 / 2 < f then n + 1 else if even n then n else n + 1)"

text \<open>
  Rounding to binary64 (round to nearest, ties to even): a number of exponent \<open>e\<close> is
  rounded to a multiple \<open>n * 2 ^ (e - 52)\<close>, which leaves 53 significant bits; below the
  least normal exponent \<open>-1022\<close> the step stays \<open>2 ^ -1074\<close> (subnormal numbers).  The
  result is an infinity when it reaches \<open>2 ^ 1024\<close>: when the exponent is above 1023, or
  is 1023 and the significand rounds up to \<open>2 ^ 53\<close>.  A decimal literal of the source,
  such as \<^verbatim>\<open>0.65\<close>, denotes the rounded value as well.
\<close>

definition double :: "rat \<Rightarrow> number" where
  "double q =
     (if q = 0 then Num 0
      else let a = \<bar>q\<bar>;
               e = max (ilog2 a) (- 1022);
               u = 2 powi (e - 52);
               n = round_even (a / u)
           in if 1023 < e \<or> (e = 1023 \<and> n = 2 ^ 53) then (if 0 < q then PosInf else NegInf)
              else Num (if 0 < q then of_int n * u else - (of_int n * u)))"

fun num_neg :: "number \<Rightarrow> number" where
  "num_neg (Num a) = Num (- a)"
| "num_neg PosInf = NegInf"
| "num_neg NegInf = PosInf"
| "num_neg NaN = NaN"

text \<open>\<^verbatim>\<open>x + y\<close>: the sum of opposite infinities is \<^verbatim>\<open>NaN\<close>.\<close>

fun num_add :: "number \<Rightarrow> number \<Rightarrow> number" where
  "num_add (Num a) (Num b) = double (a + b)"
| "num_add NaN y = NaN"
| "num_add x NaN = NaN"
| "num_add PosInf NegInf = NaN"
| "num_add NegInf PosInf = NaN"
| "num_add PosInf y = PosInf"
| "num_add NegInf y = NegInf"
| "num_add (Num a) y = y"

definition num_sub :: "number \<Rightarrow> number \<Rightarrow> number" where
  "num_sub x y = num_add x (num_neg y)"

text \<open>The sign of a number, \<open>0\<close> for zero and for \<^verbatim>\<open>NaN\<close>.\<close>

fun num_sgn :: "number \<Rightarrow> int" where
  "num_sgn (Num a) = (if a = 0 then 0 else if 0 < a then 1 else - 1)"
| "num_sgn PosInf = 1"
| "num_sgn NegInf = - 1"
| "num_sgn NaN = 0"

definition inf_of_sign :: "int \<Rightarrow> number" where
  "inf_of_sign s = (if s = 0 then NaN else if 0 < s then PosInf else NegInf)"

text \<open>\<^verbatim>\<open>x * y\<close>: zero times an infinity is \<^verbatim>\<open>NaN\<close>.\<close>

fun num_mul :: "number \<Rightarrow> number \<Rightarrow> number" where
  "num_mul (Num a) (Num b) = double (a * b)"
| "num_mul NaN y = NaN"
| "num_mul x NaN = NaN"
| "num_mul x y = inf_of_sign (num_sgn x * num_sgn y)"

text \<open>
  \<^verbatim>\<open>x / y\<close>: a finite number divided by zero is an infinity of its sign, \<^verbatim>\<open>0 / 0\<close>
  and the quotient of two infinities are \<^verbatim>\<open>NaN\<close>, a finite number divided by an
  infinity is zero.
\<close>

fun num_div :: "number \<Rightarrow> number \<Rightarrow> number" where
  "num_div (Num a) (Num b) = (if b = 0 then inf_of_sign (num_sgn (Num a)) else double (a / b))"
| "num_div NaN y = NaN"
| "num_div x NaN = NaN"
| "num_div (Num a) y = Num 0"
| "num_div x (Num b) = inf_of_sign (num_sgn x * (if b < 0 then - 1 else 1))"
| "num_div x y = NaN"

text \<open>\<^verbatim>\<open>x < y\<close> and \<^verbatim>\<open>x > y\<close>: every comparison with \<^verbatim>\<open>NaN\<close> is false.\<close>

fun num_lt :: "number \<Rightarrow> number \<Rightarrow> bool" where
  "num_lt (Num a) (Num b) = (a < b)"
| "num_lt NaN y = False"
| "num_lt x NaN = False"
| "num_lt x NegInf = False"
| "num_lt PosInf y = False"
| "num_lt NegInf y = True"
| "num_lt x PosInf = True"

definition num_gt :: "number \<Rightarrow> number \<Rightarrow> bool" where
  "num_gt x y = num_lt y x"

text \<open>\<^verbatim>\<open>x === y\<close> on numbers: \<^verbatim>\<open>NaN\<close> is not equal to itself.\<close>

definition num_seq :: "number \<Rightarrow> number \<Rightarrow> bool" where
  "num_seq x y = (x \<noteq> NaN \<and> x = y)"

text \<open>\<^verbatim>\<open>Math.max\<close>, \<^verbatim>\<open>Math.min\<close>: \<^verbatim>\<open>NaN\<close> as soon as an argument is \<^verbatim>\<open>NaN\<close>.\<close>

definition Math_max :: "number \<Rightarrow> number \<Rightarrow> number" where
  "Math_max x y = (if x = NaN \<or> y = NaN then NaN else if num_lt x y then y else x)"

definition Math_min :: "number \<Rightarrow> number \<Rightarrow> number" where
  "Math_min x y = (if x = NaN \<or> y = NaN then NaN else if num_lt y x then y else x)"

definition Math_max3 :: "number \<Rightarrow> number \<Rightarrow> number \<Rightarrow> number" where
  "Math_max3 x y z = Math_max (Math_max x y) z"

text \<open>\<^verbatim>\<open>Math.round\<close>: the nearest integer, a half rounded towards \<open>+\<infinity>\<close>.\<close>

fun Math_round :: "number \<Rightarrow> number" where
  "Math_round (Num a) = Num (of_int \<lfloor>a + 1 / 2\<rfloor>)"
| "Math_round x = x"

text \<open>
  \<^verbatim>\<open>Math.pow(x, n)\<close> for a natural exponent \<open>n\<close> (the code only squares).  The
  language leaves the precision of \<^verbatim>\<open>Math.pow\<close> to the engine; the model takes the
  correctly rounded power.  The theorems about every input use of the square only that
  it is a number, an infinity or \<^verbatim>\<open>NaN\<close>.
\<close>

fun Math_pow :: "number \<Rightarrow> nat \<Rightarrow> number" where
  "Math_pow (Num a) n = double (a ^ n)"
| "Math_pow PosInf n = (if n = 0 then Num 1 else PosInf)"
| "Math_pow NegInf n = (if n = 0 then Num 1 else if even n then PosInf else NegInf)"
| "Math_pow NaN n = (if n = 0 then Num 1 else NaN)"

section \<open>Data model\<close>

text \<open>
  The enumerated fields are string literal types in the source, plain strings when the
  program runs: they are strings here, so that a value outside the declared set (or an
  absent field, which compares unequal to every literal as well) is an input of the model.
\<close>

record DoshaScores =
  vata :: number
  pitta :: number
  kapha :: number

record HealthParameters =
  age :: number
  weight :: number
  height :: number
  bodyTemperature :: string
  digestion :: string
  sleepPattern :: string
  energyLevel :: string
  skinType :: string
  stressLevel :: string
  exerciseFrequency :: string

text \<open>
  \<^verbatim>\<open>LifestyleFactors\<close> declares no \<^verbatim>\<open>exerciseFrequency\<close>, and the lifestyle form never
  sets one; \<^verbatim>\<open>predictDiseases\<close> and \<^verbatim>\<open>calculateLifestyleRisk\<close> read
  \<^verbatim>\<open>lifestyle.exerciseFrequency\<close> all the same.  The field is optional in the model:
  \<open>None\<close> is the absent property, which reads as \<^verbatim>\<open>undefined\<close>.
\<close>

record LifestyleFactors =
  diet :: string
  mealTiming :: string
  waterIntake :: string
  sleepHours :: number
  exerciseMinutes :: number
  stressManagement :: string
  screenTime :: number
  lifestyle_exerciseFrequency :: "string option"

record DiseasePrediction =
  disease :: string
  probability :: number
  severity :: string
  ayushSystem :: string
  recommendations :: "string list"

record RiskFactor =
  factor :: string
  impact :: string
  score :: number

record LifestyleRisk =
  overallRisk :: number
  riskFactors :: "RiskFactor list"

section \<open>calculateDoshaProfile\<close>

text \<open>
  The three accumulators after the six groups of \<^verbatim>\<open>if (...) x += n\<close> statements, in
  the order of the source.  They only ever hold small natural numbers.
\<close>

definition doshaPoints :: "HealthParameters \<Rightarrow> nat \<times> nat \<times> nat" where
  "doshaPoints params =
    (let v0 = 0; p0 = 0; k0 = 0;
         v1 = (if bodyTemperature params = ''cold'' then v0 + 2 else v0);
         p1 = (if bodyTemperature params = ''warm'' then p0 + 2 else p0);
         k1 = (if bodyTemperature params = ''neutral'' then k0 + 1 else k0);
         v2 = (if digestion params = ''irregular'' then v1 + 3 else v1);
         p2 = (if digestion params = ''strong'' then p1 + 3 else p1);
         k2 = (if digestion params = ''slow'' then k1 + 3 else k1);
         v3 = (if sleepPattern params = ''light'' then v2 + 2 else v2);
         p3 = (if sleepPattern params = ''moderate'' then p2 + 2 else p2);
         k3 = (if sleepPattern params = ''deep'' then k2 + 2 else k2);
         v4 = (if energyLevel params = ''variable'' then v3 + 2 else v3);
         p4 = (if energyLevel params = ''high'' then p3 + 2 else p3);
         k4 = (if energyLevel params = ''steady'' then k3 + 2 else k3);
         v5 = (if skinType params = ''dry'' then v4 + 2 else v4);
         p5 = (if skinType params = ''oily'' then p4 + 2 else p4);
         k5 = (if skinType params = ''normal'' then k4 + 1 else k4);
         v6 = (if stressLevel params = ''high'' then v5 + 2 else v5);
         p6 = (if stressLevel params = ''moderate'' then p5 + 1 else p5);
         k6 = (if stressLevel params = ''low'' then k5 + 1 else k5)
     in (v6, p6, k6))"

text \<open>
  \<^verbatim>\<open>Math.round((x / total) * 100)\<close> for an accumulator \<open>x\<close> and the total \<open>tot\<close>.
  The quotient and the product are rounded to binary64; \<^verbatim>\<open>Math.round\<close> is exact.
\<close>

definition percentage :: "nat \<Rightarrow> nat \<Rightarrow> number" where
  "percentage x tot =
     Math_round (num_mul (num_div (Num (of_nat x)) (Num (of_nat tot))) (Num 100))"

definition calculateDoshaProfile :: "HealthParameters \<Rightarrow> DoshaScores" where
  "calculateDoshaProfile params =
    (case doshaPoints params of (v, p, k) \<Rightarrow>
       let total = v + p + k
       in \<lparr> vata = percentage v total,
            pitta = percentage p total,
            kapha = percentage k total \<rparr>)"

section \<open>Array.prototype.sort\<close>

text \<open>
  \<^verbatim>\<open>xs.sort(cmp)\<close> is the library's sort: stable, and it places \<open>a\<close> after \<open>b\<close> when
  \<^verbatim>\<open>cmp(a, b) > 0\<close>; a comparator result of \<^verbatim>\<open>NaN\<close> counts as \<open>0\<close>.  With a
  consistent comparator the result of a stable sort is unique, so the insertion sort
  below stands for whatever algorithm the engine uses.
\<close>

fun insert_cmp :: "('a \<Rightarrow> 'a \<Rightarrow> number) \<Rightarrow> 'a \<Rightarrow> 'a list \<Rightarrow> 'a list" where
  "insert_cmp cmp x [] = [x]"
| "insert_cmp cmp x (y # ys) =
     (if num_gt (cmp x y) (Num 0) then y # insert_cmp cmp x ys else x # y # ys)"

definition array_sort :: "('a \<Rightarrow> 'a \<Rightarrow> number) \<Rightarrow> 'a list \<Rightarrow> 'a list" where
  "array_sort cmp xs = foldr (insert_cmp cmp) xs []"

section \<open>predictDiseases\<close>

definition bmi :: "HealthParameters \<Rightarrow> number" where
  "bmi params = num_div (weight params) (Math_pow (num_div (height params) (Num 100)) 2)"

text \<open>The ten findings, one per \<^verbatim>\<open>predictions.push\<close> of the source.\<close>

definition anxietySleepDisorders :: "DoshaScores \<Rightarrow> DiseasePrediction" where
  "anxietySleepDisorders doshaScores =
    \<lparr> disease = ''Anxiety & Sleep Disorders'',
      probability = num_add (double (65 / 100)) (num_div (vata doshaScores) (Num 200)),
      severity = (if num_gt (vata doshaScores) (Num 50) then ''high'' else ''moderate''),
      ayushSystem = ''Ayurveda'',
      recommendations =
        [''Practice Vata-pacifying yoga (gentle, grounding poses)'',
         ''Follow regular meal times with warm, cooked foods'',
         ''Abhyanga (oil massage) with sesame oil'',
         ''Meditation and pranayama for stress reduction'',
         ''Ensure 7-8 hours of sleep''] \<rparr>"

definition digestiveIrregularity :: "DoshaScores \<Rightarrow> DiseasePrediction" where
  "digestiveIrregularity doshaScores =
    \<lparr> disease = ''Digestive Irregularity (Vishamagni)'',
      probability = num_add (double (55 / 100)) (num_div (vata doshaScores) (Num 250)),
      severity = ''moderate'',
      ayushSystem = ''Ayurveda'',
      recommendations =
        [''Consume ginger tea before meals'',
         ''Avoid cold and raw foods'',
         ''Practice mindful eating'',
         ''Take Triphala supplement (consult practitioner)''] \<rparr>"

definition hyperacidity :: "DoshaScores \<Rightarrow> DiseasePrediction" where
  "hyperacidity doshaScores =
    \<lparr> disease = ''Hyperacidity & Inflammatory Conditions'',
      probability = num_add (double (60 / 100)) (num_div (pitta doshaScores) (Num 200)),
      severity = (if num_gt (pitta doshaScores) (Num 50) then ''high'' else ''moderate''),
      ayushSystem = ''Ayurveda'',
      recommendations =
        [''Avoid spicy, fried, and acidic foods'',
         ''Practice cooling pranayama (Shitali, Sitkari)'',
         ''Consume cooling foods (cucumber, coconut, coriander)'',
         ''Avoid excessive sun exposure'',
         ''Practice stress management techniques''] \<rparr>"

definition skinInflammation :: "DoshaScores \<Rightarrow> DiseasePrediction" where
  "skinInflammation doshaScores =
    \<lparr> disease = ''Skin Inflammation & Rashes'',
      probability = num_add (double (45 / 100)) (num_div (pitta doshaScores) (Num 250)),
      severity = ''moderate'',
      ayushSystem = ''Ayurveda'',
      recommendations =
        [''Apply cooling herbs like neem and aloe vera'',
         ''Avoid hot and spicy foods'',
         ''Practice yoga in cooler hours'',
         ''Stay hydrated with room temperature water''] \<rparr>"

definition metabolicSyndrome :: "DoshaScores \<Rightarrow> number \<Rightarrow> DiseasePrediction" where
  "metabolicSyndrome doshaScores b =
    \<lparr> disease = ''Metabolic Syndrome Risk'',
      probability =
        num_add (num_add (double (55 / 100)) (num_div (kapha doshaScores) (Num 200)))
          (num_div (num_sub b (Num 25)) (Num 50)),
      severity = (if num_gt b (Num 30) then ''high'' else ''moderate''),
      ayushSystem = ''Ayurveda & Yoga'',
      recommendations =
        [''Daily exercise (minimum 30 minutes)'',
         ''Avoid heavy, oily, and sweet foods'',
         ''Practice vigorous yoga styles (Surya Namaskar)'',
         ''Consume warm water with honey and lemon'',
         ''Include more vegetables and reduce dairy''] \<rparr>"

definition sluggishDigestion :: "DoshaScores \<Rightarrow> DiseasePrediction" where
  "sluggishDigestion doshaScores =
    \<lparr> disease = ''Sluggish Digestion & Water Retention'',
      probability = num_add (double (50 / 100)) (num_div (kapha doshaScores) (Num 250)),
      severity = ''moderate'',
      ayushSystem = ''Ayurveda & Naturopathy'',
      recommendations =
        [''Increase water intake (warm water preferred)'',
         ''Consume light, warm meals'',
         ''Practice Kapalabhati pranayama'',
         ''Add ginger, black pepper to diet'',
         ''Avoid sleeping during day''] \<rparr>"

definition digitalEyeStrain :: DiseasePrediction where
  "digitalEyeStrain =
    \<lparr> disease = ''Digital Eye Strain & Mental Fatigue'',
      probability = double (70 / 100),
      severity = ''moderate'',
      ayushSystem = ''Yoga & Naturopathy'',
      recommendations =
        [''Practice Trataka (candle gazing) for eye health'',
         ''Follow 20-20-20 rule (every 20 min, look 20 feet away for 20 sec)'',
         ''Eye exercises and palming'',
         ''Reduce screen time before bed'',
         ''Use rose water eye drops (natural)''] \<rparr>"

definition sleepDeprivation :: "LifestyleFactors \<Rightarrow> DiseasePrediction" where
  "sleepDeprivation lifestyle =
    \<lparr> disease = ''Sleep Deprivation Syndrome'',
      probability = double (75 / 100),
      severity = (if num_lt (sleepHours lifestyle) (Num 5) then ''high'' else ''moderate''),
      ayushSystem = ''Ayurveda & Yoga'',
      recommendations =
        [''Establish consistent sleep schedule'',
         ''Practice Yoga Nidra before bed'',
         ''Avoid caffeine after 3 PM'',
         ''Create dark, cool sleeping environment'',
         ''Massage feet with warm oil before sleep''] \<rparr>"

definition chronicStress :: DiseasePrediction where
  "chronicStress =
    \<lparr> disease = ''Chronic Stress & Burnout Risk'',
      probability = double (68 / 100),
      severity = ''high'',
      ayushSystem = ''Yoga & Ayurveda'',
      recommendations =
        [''Start daily meditation practice (10-15 minutes)'',
         ''Practice pranayama (Anulom Vilom, Bhramari)'',
         ''Consider Ashwagandha supplementation (consult practitioner)'',
         ''Regular yoga practice'',
         ''Maintain work-life balance''] \<rparr>"

definition constitutionalWeakness :: DiseasePrediction where
  "constitutionalWeakness =
    \<lparr> disease = ''Constitutional Weakness'',
      probability = double (50 / 100),
      severity = ''low'',
      ayushSystem = ''Homeopathy & Ayurveda'',
      recommendations =
        [''Constitutional homeopathic remedy (consult homeopath)'',
         ''Regular meal times'',
         ''Adequate rest and recovery'',
         ''Avoid over-exertion'',
         ''Consider Chyawanprash for immunity''] \<rparr>"

text \<open>
  The array \<^verbatim>\<open>predictions\<close> as it stands before the final sort: every guard of the
  source in its order, each appending its finding when it holds.
\<close>

definition predictions :: "DoshaScores \<Rightarrow> LifestyleFactors \<Rightarrow> HealthParameters \<Rightarrow> DiseasePrediction list" where
  "predictions doshaScores lifestyle params =
    (if num_gt (vata doshaScores) (Num 40) then
       (if stressLevel params = ''high'' \<and> num_lt (sleepHours lifestyle) (Num 6)
        then [anxietySleepDisorders doshaScores] else []) @
       (if digestion params = ''irregular''
        then [digestiveIrregularity doshaScores] else [])
     else []) @
    (if num_gt (pitta doshaScores) (Num 40) then
       (if stressLevel params = ''high'' \<and> mealTiming lifestyle = ''irregular''
        then [hyperacidity doshaScores] else []) @
       (if bodyTemperature params = ''warm''
        then [skinInflammation doshaScores] else [])
     else []) @
    (if num_gt (kapha doshaScores) (Num 40) then
       (if num_gt (bmi params) (Num 25) \<and> lifestyle_exerciseFrequency lifestyle = Some ''rarely''
        then [metabolicSyndrome doshaScores (bmi params)] else []) @
       (if digestion params = ''slow'' \<and> waterIntake lifestyle = ''low''
        then [sluggishDigestion doshaScores] else [])
     else []) @
    (if num_gt (screenTime lifestyle) (Num 8) \<and> stressLevel params = ''high''
     then [digitalEyeStrain] else []) @
    (if num_lt (sleepHours lifestyle) (Num 6)
     then [sleepDeprivation lifestyle] else []) @
    (if stressManagement lifestyle = ''none'' \<and> stressLevel params = ''high''
     then [chronicStress] else []) @
    (if energyLevel params = ''variable'' \<and> num_gt (vata doshaScores) (Num 35)
     then [constitutionalWeakness] else [])"

text \<open>The comparator \<^verbatim>\<open>(a, b) => b.probability - a.probability\<close>.\<close>

definition byProbability :: "DiseasePrediction \<Rightarrow> DiseasePrediction \<Rightarrow> number" where
  "byProbability a b = num_sub (probability b) (probability a)"

definition predictDiseases :: "DoshaScores \<Rightarrow> LifestyleFactors \<Rightarrow> HealthParameters \<Rightarrow> DiseasePrediction list" where
  "predictDiseases doshaScores lifestyle params =
     array_sort byProbability (predictions doshaScores lifestyle params)"

section \<open>calculateLifestyleRisk\<close>

definition sleepRisk :: "LifestyleFactors \<Rightarrow> number" where
  "sleepRisk lifestyle = Math_max (Num 0) (num_mul (num_sub (Num 7) (sleepHours lifestyle)) (Num 10))"

definition exerciseRisk :: "LifestyleFactors \<Rightarrow> number" where
  "exerciseRisk lifestyle =
     (if lifestyle_exerciseFrequency lifestyle = Some ''daily'' then Num 0
      else if lifestyle_exerciseFrequency lifestyle = Some ''weekly'' then Num 15
      else Num 30)"

definition stressRisk :: "LifestyleFactors \<Rightarrow> HealthParameters \<Rightarrow> number" where
  "stressRisk lifestyle params =
     (if stressManagement lifestyle = ''none'' \<and> stressLevel params = ''high'' then Num 25
      else if stressManagement lifestyle = ''none'' then Num 15
      else Num 0)"

definition screenRisk :: "LifestyleFactors \<Rightarrow> number" where
  "screenRisk lifestyle =
     Math_min (Num 30) (Math_max (Num 0) (num_mul (num_sub (screenTime lifestyle) (Num 8)) (Num 3)))"

definition waterRisk :: "LifestyleFactors \<Rightarrow> number" where
  "waterRisk lifestyle = (if waterIntake lifestyle = ''low'' then Num 15 else Num 0)"

definition mealRisk :: "LifestyleFactors \<Rightarrow> number" where
  "mealRisk lifestyle = (if mealTiming lifestyle = ''irregular'' then Num 20 else Num 0)"

text \<open>
  One block \<^verbatim>\<open>if (risk > 0) { riskFactors.push({...}); totalRisk += risk; }\<close> of the
  source, on the pair of the array \<^verbatim>\<open>riskFactors\<close> and the number \<^verbatim>\<open>totalRisk\<close>.
\<close>

definition addRisk :: "string \<Rightarrow> string \<Rightarrow> number \<Rightarrow> RiskFactor list \<times> number \<Rightarrow> RiskFactor list \<times> number" where
  "addRisk f i risk st =
     (if num_gt risk (Num 0)
      then (fst st @ [\<lparr> factor = f, impact = i, score = risk \<rparr>], num_add (snd st) risk)
      else st)"

text \<open>The array and the total after the six blocks, before the sort and the cap.\<close>

definition lifestyleRisks :: "LifestyleFactors \<Rightarrow> HealthParameters \<Rightarrow> RiskFactor list \<times> number" where
  "lifestyleRisks lifestyle params =
    (let st0 = ([], Num 0);
         st1 = addRisk ''Inadequate Sleep''
                 (if num_gt (sleepRisk lifestyle) (Num 20) then ''High impact on health'' else ''Moderate impact'')
                 (sleepRisk lifestyle) st0;
         st2 = addRisk ''Low Physical Activity''
                 (if num_gt (exerciseRisk lifestyle) (Num 20) then ''High impact on metabolism'' else ''Moderate impact'')
                 (exerciseRisk lifestyle) st1;
         st3 = addRisk ''Poor Stress Management'' ''High impact on mental health''
                 (stressRisk lifestyle params) st2;
         st4 = addRisk ''Excessive Screen Time'' ''Impact on eyes and posture''
                 (screenRisk lifestyle) st3;
         st5 = addRisk ''Low Water Intake'' ''Impact on digestion and detoxification''
                 (waterRisk lifestyle) st4;
         st6 = addRisk ''Irregular Meal Times'' ''Impact on digestion and metabolism''
                 (mealRisk lifestyle) st5
     in st6)"

text \<open>The comparator \<^verbatim>\<open>(a, b) => b.score - a.score\<close>.\<close>

definition byScore :: "RiskFactor \<Rightarrow> RiskFactor \<Rightarrow> number" where
  "byScore a b = num_sub (score b) (score a)"

definition calculateLifestyleRisk :: "LifestyleFactors \<Rightarrow> HealthParameters \<Rightarrow> LifestyleRisk" where
  "calculateLifestyleRisk lifestyle params =
    (case lifestyleRisks lifestyle params of (factors, totalRisk) \<Rightarrow>
       \<lparr> overallRisk = Math_min (Num 100) totalRisk,
         riskFactors = array_sort byScore factors \<rparr>)"

section \<open>getDominantDosha\<close>

definition getDominantDosha :: "DoshaScores \<Rightarrow> string" where
  "getDominantDosha scores =
    (let mx = Math_max3 (vata scores) (pitta scores) (kapha scores)
     in if num_seq (vata scores) mx then ''Vata''
        else if num_seq (pitta scores) mx then ''Pitta''
        else ''Kapha'')"

section \<open>Notions of the specification\<close>

text \<open>\<^verbatim>\<open>x <= y\<close> on numbers: false as soon as an argument is \<^verbatim>\<open>NaN\<close>.\<close>

definition num_le :: "number \<Rightarrow> number \<Rightarrow> bool" where
  "num_le x y = (x \<noteq> NaN \<and> y \<noteq> NaN \<and> \<not> num_lt y x)"

text \<open>
  The declared domains of the ten health attributes: a positive integer age, a positive
  weight and height, and every enumerated attribute one of its three literals.
\<close>

fun positiveNumber :: "number \<Rightarrow> bool" where
  "positiveNumber (Num a) = (0 < a)"
| "positiveNumber x = False"

fun positiveInteger :: "number \<Rightarrow> bool" where
  "positiveInteger (Num a) = (0 < a \<and> of_int \<lfloor>a\<rfloor> = a)"
| "positiveInteger x = False"

definition validHealthParameters :: "HealthParameters \<Rightarrow> bool" where
  "validHealthParameters params =
    (positiveInteger (age params) \<and> positiveNumber (weight params) \<and>
     positiveNumber (height params) \<and>
     bodyTemperature params \<in> {''cold'', ''neutral'', ''warm''} \<and>
     digestion params \<in> {''irregular'', ''strong'', ''slow''} \<and>
     sleepPattern params \<in> {''light'', ''moderate'', ''deep''} \<and>
     energyLevel params \<in> {''variable'', ''high'', ''steady''} \<and>
     skinType params \<in> {''dry'', ''oily'', ''normal''} \<and>
     stressLevel params \<in> {''high'', ''moderate'', ''low''} \<and>
     exerciseFrequency params \<in> {''daily'', ''weekly'', ''rarely''})"

text \<open>The sum of the three percentages of a profile.\<close>

definition scoreSum :: "DoshaScores \<Rightarrow> number" where
  "scoreSum scores = num_add (num_add (vata scores) (pitta scores)) (kapha scores)"

text \<open>The value of the constant \<^verbatim>\<open>total\<close> of \<^verbatim>\<open>calculateDoshaProfile\<close>.\<close>

definition totalPoints :: "HealthParameters \<Rightarrow> nat" where
  "totalPoints params = (case doshaPoints params of (v, p, k) \<Rightarrow> v + p + k)"

text \<open>
  The weight table of the specification (section 4.1), row by row: the points
  \<open>(A, B, C)\<close> that each value of an attribute adds to the three accumulators.  The
  table has six rows; it has none for the exercise frequency.
\<close>

definition bodyTemperatureWeights :: "string \<rightharpoonup> nat \<times> nat \<times> nat" where
  "bodyTemperatureWeights =
     map_of [(''cold'', (2, 0, 0)), (''neutral'', (0, 0, 1)), (''warm'', (0, 2, 0))]"

definition digestionWeights :: "string \<rightharpoonup> nat \<times> nat \<times> nat" where
  "digestionWeights =
     map_of [(''irregular'', (3, 0, 0)), (''strong'', (0, 3, 0)), (''slow'', (0, 0, 3))]"

definition sleepPatternWeights :: "string \<rightharpoonup> nat \<times> nat \<times> nat" where
  "sleepPatternWeights =
     map_of [(''light'', (2, 0, 0)), (''moderate'', (0, 2, 0)), (''deep'', (0, 0, 2))]"

definition energyLevelWeights :: "string \<rightharpoonup> nat \<times> nat \<times> nat" where
  "energyLevelWeights =
     map_of [(''variable'', (2, 0, 0)), (''high'', (0, 2, 0)), (''steady'', (0, 0, 2))]"

definition skinTypeWeights :: "string \<rightharpoonup> nat \<times> nat \<times> nat" where
  "skinTypeWeights =
     map_of [(''dry'', (2, 0, 0)), (''oily'', (0, 2, 0)), (''normal'', (0, 0, 1))]"

definition stressLevelWeights :: "string \<rightharpoonup> nat \<times> nat \<times> nat" where
  "stressLevelWeights =
     map_of [(''high'', (2, 0, 0)), (''moderate'', (0, 1, 0)), (''low'', (0, 0, 1))]"

text \<open>Adding the points of two rows, accumulator by accumulator.\<close>

fun addPoints :: "nat \<times> nat \<times> nat \<Rightarrow> nat \<times> nat \<times> nat \<Rightarrow> nat \<times> nat \<times> nat" where
  "addPoints (a, b, c) (a', b', c') = (a + a', b + b', c + c')"

text \<open>An entry that adds 1, 2 or 3 points to exactly one accumulator.\<close>

fun oneAccumulator :: "nat \<times> nat \<times> nat \<Rightarrow> bool" where
  "oneAccumulator (a, b, c) =
     ((a \<in> {1, 2, 3} \<and> b = 0 \<and> c = 0) \<or> (a = 0 \<and> b \<in> {1, 2, 3} \<and> c = 0) \<or>
      (a = 0 \<and> b = 0 \<and> c \<in> {1, 2, 3}))"

text \<open>
  The points of a value under a row of the weight table: those of its entry, and none
  for a value that the row does not list.
\<close>

definition rowPoints :: "(string \<rightharpoonup> nat \<times> nat \<times> nat) \<Rightarrow> string \<Rightarrow> nat \<times> nat \<times> nat" where
  "rowPoints w v = (case w v of Some r \<Rightarrow> r | None \<Rightarrow> (0, 0, 0))"

text \<open>An input none of whose six scored attributes has a value of its declared set.\<close>

definition noScoredAttribute :: "HealthParameters \<Rightarrow> bool" where
  "noScoredAttribute params =
    (bodyTemperature params \<notin> {''cold'', ''neutral'', ''warm''} \<and>
     digestion params \<notin> {''irregular'', ''strong'', ''slow''} \<and>
     sleepPattern params \<notin> {''light'', ''moderate'', ''deep''} \<and>
     energyLevel params \<notin> {''variable'', ''high'', ''steady''} \<and>
     skinType params \<notin> {''dry'', ''oily'', ''normal''} \<and>
     stressLevel params \<notin> {''high'', ''moderate'', ''low''})"

text \<open>The names of the ten rules of \<^verbatim>\<open>predictDiseases\<close>, in the order of evaluation.\<close>

definition ruleOrder :: "string list" where
  "ruleOrder =
    [''Anxiety & Sleep Disorders'',
     ''Digestive Irregularity (Vishamagni)'',
     ''Hyperacidity & Inflammatory Conditions'',
     ''Skin Inflammation & Rashes'',
     ''Metabolic Syndrome Risk'',
     ''Sluggish Digestion & Water Retention'',
     ''Digital Eye Strain & Mental Fatigue'',
     ''Sleep Deprivation Syndrome'',
     ''Chronic Stress & Burnout Risk'',
     ''Constitutional Weakness'']"

text \<open>
  The six contribution terms of \<^verbatim>\<open>calculateLifestyleRisk\<close> under the names of their
  factors, in the order of evaluation.
\<close>

definition riskTerms :: "LifestyleFactors \<Rightarrow> HealthParameters \<Rightarrow> (string \<times> number) list" where
  "riskTerms lifestyle params =
    [(''Inadequate Sleep'', sleepRisk lifestyle),
     (''Low Physical Activity'', exerciseRisk lifestyle),
     (''Poor Stress Management'', stressRisk lifestyle params),
     (''Excessive Screen Time'', screenRisk lifestyle),
     (''Low Water Intake'', waterRisk lifestyle),
     (''Irregular Meal Times'', mealRisk lifestyle)]"

text \<open>
  The impact string of a factor: fixed for four factors, chosen by the contribution
  (above 20 or not) for the sleep and the activity factor.
\<close>

definition impactOf :: "string \<Rightarrow> number \<Rightarrow> string" where
  "impactOf f s =
    (if f = ''Inadequate Sleep''
       then (if num_gt s (Num 20) then ''High impact on health'' else ''Moderate impact'')
     else if f = ''Low Physical Activity''
       then (if num_gt s (Num 20) then ''High impact on metabolism'' else ''Moderate impact'')
     else if f = ''Poor Stress Management'' then ''High impact on mental health''
     else if f = ''Excessive Screen Time'' then ''Impact on eyes and posture''
     else if f = ''Low Water Intake'' then ''Impact on digestion and detoxification''
     else ''Impact on digestion and metabolism'')"

text \<open>A number that is zero or more, \<open>+\<infinity>\<close> included.\<close>

fun nonNegative :: "number \<Rightarrow> bool" where
  "nonNegative (Num a) = (0 \<le> a)"
| "nonNegative PosInf = True"
| "nonNegative x = False"

section \<open>Auxiliary notions of the proofs\<close>

text \<open>What one statement \<^verbatim>\<open>if (value === literal) x += n\<close> adds.\<close>

definition pointsFor :: "string \<Rightarrow> string \<Rightarrow> nat \<Rightarrow> nat" where
  "pointsFor v literal n = (if v = literal then n else 0)"

text \<open>
  A number that, when it is finite, is a multiple of \<open>2 ^ -1074\<close>, the least positive
  binary64 number, as every finite binary64 number is.
\<close>

fun onGrid :: "number \<Rightarrow> bool" where
  "onGrid (Num a) = (of_int \<lfloor>a * 2 ^ 1074\<rfloor> = a * 2 ^ 1074)"
| "onGrid x = True"

text \<open>The integer that \<^verbatim>\<open>Math.round((x / t) * 100)\<close> is, for a positive \<open>t\<close>.\<close>

definition roundedShare :: "int \<Rightarrow> int \<Rightarrow> int" where
  "roundedShare t x = (200 * x + t) div (2 * t)"

section \<open>Rounding to binary64: basic facts\<close>

lemma ilog2_lower:
  assumes "0 < a"
  shows "2 powi (ilog2 a) \<le> a"
proof (cases "1 \<le> a")
  case True
  then have x: "0 < \<lfloor>a\<rfloor>" by linarith
  from bitlen_bounds [OF x] have "2 ^ nat (bitlen \<lfloor>a\<rfloor> - 1) \<le> \<lfloor>a\<rfloor>" by simp
  then have "(of_int (2 ^ nat (bitlen \<lfloor>a\<rfloor> - 1)) :: rat) \<le> of_int \<lfloor>a\<rfloor>"
    by (simp only: of_int_le_iff)
  also have "\<dots> \<le> a" by simp
  finally have "(2::rat) ^ nat (bitlen \<lfloor>a\<rfloor> - 1) \<le> a" by simp
  moreover from x have "1 \<le> bitlen \<lfloor>a\<rfloor>" by (auto simp: bitlen_alt_def)
  ultimately show ?thesis using True
    by (simp add: ilog2_def power_int_nonneg_exp)
next
  case False
  define m where "m = \<lceil>1 / a\<rceil>"
  define k where "k = bitlen (m - 1)"
  from False assms have "1 < 1 / a" by simp
  then have m: "1 < m" unfolding m_def by linarith
  then have x: "0 < m - 1" by simp
  from bitlen_bounds [OF x] have "m - 1 < 2 ^ nat k" by (simp add: k_def)
  then have "m \<le> 2 ^ nat k" by simp
  then have "(of_int m :: rat) \<le> of_int (2 ^ nat k)" by (simp only: of_int_le_iff)
  then have "(of_int m :: rat) \<le> 2 ^ nat k" by simp
  moreover have "1 / a \<le> of_int m" unfolding m_def by simp
  ultimately have "1 / a \<le> 2 ^ nat k" by linarith
  with assms have "1 / 2 ^ nat k \<le> a"
    by (simp add: field_simps)
  moreover have "0 \<le> k" unfolding k_def by (rule bitlen_nonneg)
  ultimately show ?thesis using False
    by (simp add: ilog2_def m_def [symmetric] k_def [symmetric] power_int_minus
        power_int_nonneg_exp field_simps)
qed

lemma round_even_ge_floor: "\<lfloor>x\<rfloor> \<le> round_even x"
  by (simp add: round_even_def Let_def)

lemma double_not_NaN [simp]: "double q \<noteq> NaN"
  by (simp add: double_def Let_def)

lemma double_minus: "double (- q) = num_neg (double q)"
proof (cases "q = 0")
  case True
  then show ?thesis by (simp add: double_def)
next
  case False
  define e where "e = max (ilog2 \<bar>q\<bar>) (- 1022)"
  define u :: rat where "u = 2 powi (e - 52)"
  define n where "n = round_even (\<bar>q\<bar> / u)"
  have d: "double q = (if 1023 < e \<or> (e = 1023 \<and> n = 2 ^ 53) then (if 0 < q then PosInf else NegInf)
              else Num (if 0 < q then of_int n * u else - (of_int n * u)))"
    using False
    by (simp only: double_def Let_def e_def [symmetric] u_def [symmetric] n_def [symmetric] if_False)
  from False have "- q \<noteq> 0" by simp
  then have d': "double (- q) = (if 1023 < e \<or> (e = 1023 \<and> n = 2 ^ 53)
              then (if 0 < - q then PosInf else NegInf)
              else Num (if 0 < - q then of_int n * u else - (of_int n * u)))"
    by (simp only: double_def Let_def abs_minus_cancel e_def [symmetric] u_def [symmetric]
        n_def [symmetric] if_False)
  from False show ?thesis unfolding d d' by (cases "0 < q") auto
qed

lemma double_nonneg: "0 \<le> q \<Longrightarrow> nonNegative (double q)"
proof -
  assume q: "0 \<le> q"
  have "0 \<le> of_int (round_even (q / 2 powi e)) * (2 powi e :: rat)" for e
  proof -
    have "0 \<le> q / 2 powi e" using q by simp
    then have "0 \<le> \<lfloor>q / 2 powi e\<rfloor>" by simp
    with round_even_ge_floor [of "q / 2 powi e"] have "0 \<le> round_even (q / 2 powi e)"
      by linarith
    then show ?thesis by simp
  qed
  with q show ?thesis
    by (simp add: double_def Let_def)
qed

text \<open>A number from the least positive binary64 number on does not round to zero.\<close>

lemma double_pos:
  assumes "2 powi (- 1074) \<le> q"
  shows "num_lt (Num 0) (double q)"
proof -
  have q: "0 < q" using assms zero_less_power_int [of "2::rat" "- 1074"] by linarith
  define e where "e = max (ilog2 q) (- 1022)"
  define u :: rat where "u = 2 powi (e - 52)"
  have u: "0 < u" by (simp add: u_def)
  have "u \<le> q"
  proof (cases "ilog2 q \<le> - 1022")
    case True
    then have "e = - 1022" by (simp add: e_def)
    then show ?thesis using assms by (simp add: u_def)
  next
    case False
    then have "e = ilog2 q" by (simp add: e_def)
    then have "u \<le> 2 powi (ilog2 q)"
      unfolding u_def by (simp add: power_int_increasing)
    with ilog2_lower [OF q] show ?thesis by linarith
  qed
  with u have "1 \<le> q / u" by simp
  then have "1 \<le> \<lfloor>q / u\<rfloor>" by simp
  with round_even_ge_floor [of "q / u"] have "1 \<le> round_even (q / u)" by linarith
  then have "0 < of_int (round_even (q / u)) * u" using u by simp
  with q show ?thesis
    by (simp add: double_def Let_def e_def [symmetric] u_def [symmetric])
qed

lemma double_nonpos: "q \<le> 0 \<Longrightarrow> \<not> num_lt (Num 0) (double q)"
  using double_nonneg [of "- q"] double_minus [of "- q"]
  by (cases "double (- q)") auto

text \<open>Every result of an arithmetic operation is a multiple of \<open>2 ^ -1074\<close>.\<close>

lemma onGrid_scaled:
  assumes "- 1022 \<le> e"
  shows "onGrid (Num (of_int n * 2 powi (e - 52)))"
proof -
  have p: "(2::rat) ^ 1074 = 2 powi 1074" by (rule power_int_numeral [symmetric])
  have "(2::rat) powi (e - 52) * 2 powi 1074 = 2 powi (e - 52 + 1074)"
    by (rule power_int_add [symmetric]) simp
  also have "e - 52 + 1074 = e + 1022" by simp
  also have "(2::rat) powi (e + 1022) = 2 ^ nat (e + 1022)"
    using assms by (intro power_int_nonneg_exp) simp
  finally have "(2::rat) powi (e - 52) * 2 ^ 1074 = of_int (2 ^ nat (e + 1022))"
    unfolding p by simp
  then have "of_int n * 2 powi (e - 52) * 2 ^ 1074 = (of_int (n * 2 ^ nat (e + 1022)) :: rat)"
    by (simp only: mult.assoc of_int_mult)
  then have "of_int \<lfloor>(of_int n :: rat) * 2 powi (e - 52) * 2 ^ 1074\<rfloor>
      = (of_int n * 2 powi (e - 52) * 2 ^ 1074 :: rat)"
    by (simp only: floor_of_int)
  then show ?thesis by (simp only: onGrid.simps)
qed

lemma double_onGrid: "onGrid (double q)"
proof (cases "q = 0")
  case True
  then show ?thesis by (simp add: double_def)
next
  case False
  define e where "e = max (ilog2 \<bar>q\<bar>) (- 1022)"
  define u :: rat where "u = 2 powi (e - 52)"
  define n where "n = round_even (\<bar>q\<bar> / u)"
  have e: "- 1022 \<le> e" by (simp add: e_def)
  have d: "double q = (if 1023 < e \<or> (e = 1023 \<and> n = 2 ^ 53) then (if 0 < q then PosInf else NegInf)
              else Num (if 0 < q then of_int n * u else - (of_int n * u)))"
    using False by (simp only: double_def Let_def e_def [symmetric] u_def [symmetric] n_def [symmetric] if_False)
  have "onGrid (Num (of_int n * u))" unfolding u_def using e by (rule onGrid_scaled)
  moreover have "onGrid (Num (of_int (- n) * u))" unfolding u_def using e by (rule onGrid_scaled)
  then have "onGrid (Num (- (of_int n * u)))" by (simp only: of_int_minus mult_minus_left)
  ultimately show ?thesis unfolding d by (simp only: onGrid.simps split: if_split) simp
qed

lemma onGrid_int: "onGrid (Num (of_int k))"
proof -
  have "(of_int k :: rat) * 2 ^ 1074 = of_int (k * 2 ^ 1074)" by simp
  then have "of_int \<lfloor>(of_int k :: rat) * 2 ^ 1074\<rfloor> = (of_int k :: rat) * 2 ^ 1074"
    by (simp only: floor_of_int)
  then show ?thesis by (simp only: onGrid.simps)
qed

lemma onGrid_num_add: "onGrid (num_add x y)"
  by (cases x; cases y) (simp_all add: double_onGrid del: onGrid.simps(1))

lemma onGrid_num_mul: "onGrid (num_mul x y)"
  by (cases x; cases y) (simp_all add: double_onGrid inf_of_sign_def del: onGrid.simps(1))

lemma onGrid_Math_max: "onGrid x \<Longrightarrow> onGrid y \<Longrightarrow> onGrid (Math_max x y)"
  by (simp add: Math_max_def del: onGrid.simps(1))

lemma onGrid_Math_min: "onGrid x \<Longrightarrow> onGrid y \<Longrightarrow> onGrid (Math_min x y)"
  by (simp add: Math_min_def del: onGrid.simps(1))

text \<open>Two different multiples of \<open>2 ^ -1074\<close> are at least \<open>2 ^ -1074\<close> apart.\<close>

lemma scaled_gap:
  fixes g x y :: rat
  assumes "0 < g" "x * g = of_int i" "y * g = of_int j" "x < y"
  shows "1 / g \<le> y - x"
proof -
  from assms(1,4) have "x * g < y * g" by (rule mult_strict_right_mono [rotated])
  then have "(of_int i :: rat) < of_int j" by (simp only: assms(2,3))
  then have "i + 1 \<le> j" by simp
  then have "(of_int (i + 1) :: rat) \<le> of_int j" by (simp only: of_int_le_iff)
  then have "x * g + 1 \<le> y * g" by (simp add: assms(2,3))
  then have "1 \<le> (y - x) * g" by (simp add: algebra_simps)
  with assms(1) show ?thesis by (simp add: pos_divide_le_eq)
qed

lemma grid_gap:
  assumes "onGrid (Num x)" "onGrid (Num y)" "x < y"
  shows "2 powi (- 1074) \<le> y - x"
proof -
  have g: "(0::rat) < 2 ^ 1074" by (rule zero_less_power) simp
  from assms(1) have "x * 2 ^ 1074 = of_int \<lfloor>x * 2 ^ 1074\<rfloor>"
    by (simp only: onGrid.simps)
  moreover from assms(2) have "y * 2 ^ 1074 = of_int \<lfloor>y * 2 ^ 1074\<rfloor>"
    by (simp only: onGrid.simps)
  ultimately have "1 / 2 ^ 1074 \<le> y - x"
    using g assms(3) by (intro scaled_gap [where g = "2 ^ 1074"])
  moreover have "(2::rat) powi (- 1074) = 1 / 2 ^ 1074"
    by (simp only: power_int_minus power_int_numeral inverse_eq_divide)
  ultimately show ?thesis by (simp only:)
qed

text \<open>The error of one rounding: half a unit in the last place.\<close>

lemma round_even_error: "\<bar>of_int (round_even x) - x\<bar> \<le> 1 / 2"
proof -
  have "0 \<le> x - of_int \<lfloor>x\<rfloor>" "x - of_int \<lfloor>x\<rfloor> < 1" by linarith+
  then show ?thesis by (auto simp: round_even_def Let_def)
qed

lemma double_error:
  assumes "0 < q" "q < 2 powi 1023"
  shows "\<exists>y. double q = Num y \<and> \<bar>y - q\<bar> \<le> q * 2 powi (- 53) + 2 powi (- 1075)"
proof -
  define e where "e = max (ilog2 q) (- 1022)"
  define u :: rat where "u = 2 powi (e - 52)"
  define n where "n = round_even (q / u)"
  have u: "0 < u" by (simp add: u_def)
  have "2 powi (ilog2 q) < (2::rat) powi 1023"
    using ilog2_lower [OF assms(1)] assms(2) by linarith
  then have "ilog2 q < 1023"
    using power_int_increasing [of 1023 "ilog2 q" "2::rat"] by (cases "1023 \<le> ilog2 q") simp_all
  then have e: "e < 1023" by (simp add: e_def)
  from assms(1) e have d: "double q = Num (of_int n * u)"
    by (simp add: double_def Let_def e_def [symmetric] u_def [symmetric] n_def [symmetric])
  have "\<bar>of_int n - q / u\<bar> \<le> 1 / 2" unfolding n_def by (rule round_even_error)
  then have "\<bar>of_int n - q / u\<bar> * u \<le> 1 / 2 * u" using u by (intro mult_right_mono) simp_all
  moreover have "\<bar>of_int n - q / u\<bar> * u = \<bar>of_int n * u - q\<bar>"
    using u by (simp add: abs_mult_pos [symmetric] field_simps)
  ultimately have err: "\<bar>of_int n * u - q\<bar> \<le> u / 2" by simp
  have half: "u / 2 = 2 powi (e - 53)"
  proof -
    have "(2::rat) powi (e - 52) = 2 powi (e - 53 + 1)" by simp
    also have "\<dots> = 2 powi (e - 53) * 2" by (subst power_int_add) simp_all
    finally show ?thesis by (simp add: u_def)
  qed
  have "u / 2 \<le> q * 2 powi (- 53) + 2 powi (- 1075)"
  proof (cases "ilog2 q \<le> - 1022")
    case True
    then have "e = - 1022" by (simp add: e_def)
    then have "u / 2 = 2 powi (- 1075)" unfolding half by simp
    moreover have "0 \<le> q * 2 powi (- 53)" using assms(1) by simp
    ultimately show ?thesis by linarith
  next
    case False
    then have "e = ilog2 q" by (simp add: e_def)
    then have "u / 2 = 2 powi (ilog2 q + - 53)" unfolding half by simp
    also have "\<dots> = 2 powi (ilog2 q) * 2 powi (- 53)" by (rule power_int_add) simp
    also have "\<dots> \<le> q * 2 powi (- 53)"
      using ilog2_lower [OF assms(1)] by (intro mult_right_mono) simp_all
    finally have "u / 2 \<le> q * 2 powi (- 53)" .
    moreover have "(0::rat) \<le> 2 powi (- 1075)" by simp
    ultimately show ?thesis by linarith
  qed
  with err d show ?thesis by (intro exI [of _ "of_int n * u"]) simp
qed

lemma double_error_small:
  assumes "0 < q" "q < 1000"
  shows "\<exists>y. double q = Num y \<and> \<bar>y - q\<bar> \<le> (q + 1) / 1000000000"
proof -
  have "(1000::rat) < 2 powi 1023" by simp
  with assms have "q < 2 powi 1023" by linarith
  from double_error [OF assms(1) this] obtain y
    where y: "double q = Num y" "\<bar>y - q\<bar> \<le> q * 2 powi (- 53) + 2 powi (- 1075)" by blast
  have "(2::rat) powi (- 53) \<le> 1 / 1000000000" by (simp add: power_int_minus)
  then have "q * 2 powi (- 53) \<le> q * (1 / 1000000000)"
    using assms(1) by (intro mult_left_mono) simp_all
  moreover have "(2::rat) powi (- 1075) \<le> 1 / 1000000000" by (simp add: power_int_minus)
  ultimately have "q * 2 powi (- 53) + 2 powi (- 1075) \<le> (q + 1) / 1000000000" by (simp add: field_simps)
  with y show ?thesis by (intro exI [of _ y]) simp
qed


lemma abs_bound_scaled:
  fixes a b c k :: rat
  assumes "\<bar>a - b\<bar> \<le> c / k" "0 < k"
  shows "a * k \<le> b * k + c" and "b * k - c \<le> a * k"
proof -
  from assms(1) have "a - b \<le> c / k" "- (a - b) \<le> c / k" by (simp_all only: abs_le_iff)
  with assms(2) have "(a - b) * k \<le> c" "(- (a - b)) * k \<le> c"
    by (simp_all only: pos_le_divide_eq)
  then show "a * k \<le> b * k + c" and "b * k - c \<le> a * k"
    by (simp_all add: algebra_simps)
qed

text \<open>An integer below \<open>2 ^ 53\<close> is a binary64 number: rounding leaves it as it is.\<close>

lemma round_even_of_int: "round_even (of_int m) = m"
  by (simp add: round_even_def Let_def)

lemma double_of_int:
  assumes "0 < k" "k < 2 ^ 53"
  shows "double (of_int k) = Num (of_int k)"
proof -
  define e where "e = bitlen k - 1"
  from bitlen_bounds [OF assms(1)] have b: "2 ^ nat e \<le> k" by (simp add: e_def)
  have e0: "0 \<le> e" using assms(1) by (auto simp: e_def bitlen_alt_def)
  have e52: "e \<le> 52"
  proof (rule ccontr)
    assume "\<not> e \<le> 52"
    then have "53 \<le> nat e" by simp
    then have "(2::int) ^ 53 \<le> 2 ^ nat e" by (intro power_increasing) simp_all
    with b assms(2) show False by linarith
  qed
  have k1: "(1::rat) \<le> of_int k" using assms(1) by simp
  have il: "ilog2 (of_int k) = e" using k1 by (simp add: ilog2_def e_def)
  define u :: rat where "u = 2 powi (e - 52)"
  define m where "m = k * 2 ^ nat (52 - e)"
  have "(2::rat) powi (e - 52) * 2 powi (52 - e) = 2 powi (e - 52 + (52 - e))"
    by (rule power_int_add [symmetric]) simp
  moreover have "(2::rat) powi (52 - e) = 2 ^ nat (52 - e)"
    using e52 by (intro power_int_nonneg_exp) simp
  ultimately have uu: "u * 2 ^ nat (52 - e) = 1" by (simp add: u_def)
  have u: "0 < u" by (simp add: u_def)
  have "of_int m * u = of_int k * (u * 2 ^ nat (52 - e))" by (simp add: m_def)
  then have mu: "of_int m * u = of_int k" by (simp only: uu mult_1_right)
  then have "of_int k / u = (of_int m :: rat)" using u by (simp add: field_simps)
  then have n: "round_even (of_int k / u) = m" by (simp only: round_even_of_int)
  have ne: "(of_int k :: rat) \<noteq> 0" "(0::rat) < of_int k" "\<bar>of_int k :: rat\<bar> = of_int k"
    using assms(1) by simp_all
  have mx: "max e (- 1022) = e" using e0 by simp
  have "double (of_int k) =
    (if 1023 < e \<or> (e = 1023 \<and> m = 2 ^ 53) then PosInf else Num (of_int m * u))"
    by (simp only: double_def Let_def ne il mx u_def [symmetric] n if_False if_True)
  with e52 mu show ?thesis by simp
qed

lemma double_numeral [simp]:
  "numeral w < (9007199254740992::int) \<Longrightarrow> double (numeral w) = Num (numeral w)"
  using double_of_int [of "numeral w"] by simp

lemma double_neg_numeral [simp]:
  "numeral w < (9007199254740992::int) \<Longrightarrow> double (- numeral w) = Num (- numeral w)"
  using double_of_int [of "numeral w"] by (simp add: double_minus)

lemma double_zero [simp]: "double 0 = Num 0"
  by (simp add: double_def)

lemma double_one [simp]: "double 1 = Num 1"
  using double_of_int [of 1] by simp

lemma double_neg_one [simp]: "double (- 1) = Num (- 1)"
  using double_minus [of 1] by simp

text \<open>A positive number below half the least positive binary64 number rounds to zero.\<close>

lemma double_underflow:
  assumes "0 < q" "q < 2 powi (- 1075)"
  shows "double q = Num 0"
proof -
  have "2 powi (ilog2 q) < (2::rat) powi (- 1075)"
    using ilog2_lower [OF assms(1)] assms(2) by linarith
  then have "ilog2 q < - 1075"
    using power_int_increasing [of "- 1075" "ilog2 q" "2::rat"]
    by (cases "- 1075 \<le> ilog2 q") simp_all
  then have e: "max (ilog2 q) (- 1022) = - 1022" by simp
  define u :: rat where "u = 2 powi (- 1074)"
  have u: "0 < u" unfolding u_def by (rule zero_less_power_int) simp
  have "(2::rat) powi (- 1074) = 2 powi (- 1075 + 1)" by simp
  also have "\<dots> = 2 powi (- 1075) * 2" by (subst power_int_add) simp_all
  finally have "u / 2 = 2 powi (- 1075)" by (simp add: u_def)
  with assms(2) have "q < u / 2" by (simp only:)
  with u have "q / u < 1 / 2" by (simp add: field_simps)
  moreover from assms(1) u have "0 < q / u" by simp
  ultimately have f: "\<lfloor>q / u\<rfloor> = 0" by linarith
  with \<open>q / u < 1 / 2\<close> have r: "round_even (q / u) = 0"
    by (simp add: round_even_def Let_def)
  have a: "q \<noteq> 0" "\<bar>q\<bar> = q" using assms(1) by simp_all
  have m: "(- 1022 - 52 :: int) = - 1074" by simp
  have "double q = (if 1023 < (- 1022 :: int) \<or> ((- 1022 :: int) = 1023 \<and> (0::int) = 2 ^ 53)
      then (if 0 < q then PosInf else NegInf)
      else Num (if 0 < q then of_int 0 * u else - (of_int 0 * u)))"
    by (simp only: double_def Let_def a e m u_def [symmetric] r if_False)
  then show ?thesis by simp
qed

section \<open>Numbers and sorting: basic facts\<close>

text \<open>
  On binary64 numbers the comparator \<^verbatim>\<open>b - a\<close> is positive exactly when \<open>a < b\<close>:
  the difference of two different numbers does not round to zero.
\<close>

lemma num_gt_sub_zero:
  assumes "onGrid a" "onGrid b"
  shows "num_gt (num_sub b a) (Num 0) = num_lt a b"
proof (cases a)
  case a: (Num x)
  show ?thesis
  proof (cases b)
    case b: (Num y)
    show ?thesis
    proof (cases "x < y")
      case True
      with assms a b have "2 powi (- 1074) \<le> y - x" by (intro grid_gap) simp_all
      then have "num_lt (Num 0) (double (y - x))" by (rule double_pos)
      with True a b show ?thesis by (simp add: num_gt_def num_sub_def)
    next
      case False
      then have "y - x \<le> 0" by simp
      then have "\<not> num_lt (Num 0) (double (y - x))" by (rule double_nonpos)
      with False a b show ?thesis by (simp add: num_gt_def num_sub_def)
    qed
  qed (simp_all add: a num_gt_def num_sub_def)
qed (cases b; simp add: num_gt_def num_sub_def)+

lemma num_gt_sub_zero_neq: "num_gt (num_sub b a) (Num 0) \<Longrightarrow> a \<noteq> b"
  by (cases a) (auto simp: num_gt_def num_sub_def double_def)

lemma num_lt_irrefl: "\<not> num_lt a a"
  by (cases a) auto

lemma num_le_trans: "num_le a b \<Longrightarrow> num_le b c \<Longrightarrow> num_le a c"
  by (cases a; cases b; cases c) (auto simp: num_le_def)

lemma num_lt_imp_le: "num_lt a b \<Longrightarrow> num_le a b"
  by (cases a; cases b) (auto simp: num_le_def)

lemma set_insert_cmp: "set (insert_cmp cmp x ys) = insert x (set ys)"
  by (induction ys) auto

lemma set_array_sort: "set (array_sort cmp xs) = set xs"
  unfolding array_sort_def by (induction xs) (auto simp: set_insert_cmp)

text \<open>
  Inserting into a list that descends keeps it descending, when the keys are binary64
  numbers other than \<^verbatim>\<open>NaN\<close> (the comparator is then consistent).
\<close>

lemma sorted_insert_cmp:
  assumes "sorted_wrt (\<lambda>a b. num_le (k b) (k a)) ys" "k x \<noteq> NaN" "onGrid (k x)"
    and "\<forall>y\<in>set ys. k y \<noteq> NaN \<and> onGrid (k y)"
  shows "sorted_wrt (\<lambda>a b. num_le (k b) (k a)) (insert_cmp (\<lambda>a b. num_sub (k b) (k a)) x ys)"
  using assms
proof (induction ys)
  case Nil
  then show ?case by simp
next
  case (Cons y ys)
  have cmp: "num_gt (num_sub (k y) (k x)) (Num 0) = num_lt (k x) (k y)"
    using Cons.prems by (intro num_gt_sub_zero) simp_all
  show ?case
  proof (cases "num_lt (k x) (k y)")
    case True
    then have "num_le (k x) (k y)" by (rule num_lt_imp_le)
    with Cons True show ?thesis
      by (auto simp: cmp set_insert_cmp simp del: onGrid.simps(1))
  next
    case False
    with Cons.prems have xy: "num_le (k y) (k x)" by (simp add: num_le_def)
    have "\<forall>z\<in>set ys. num_le (k z) (k x)"
      using Cons.prems(1) xy by (auto intro: num_le_trans)
    with Cons.prems(1) xy False show ?thesis
      by (simp add: cmp)
  qed
qed

lemma sorted_array_sort:
  assumes "\<forall>y\<in>set xs. k y \<noteq> NaN \<and> onGrid (k y)"
  shows "sorted_wrt (\<lambda>a b. num_le (k b) (k a)) (array_sort (\<lambda>a b. num_sub (k b) (k a)) xs)"
  using assms unfolding array_sort_def
proof (induction xs)
  case Nil
  then show ?case by simp
next
  case (Cons x xs)
  then show ?case
    using sorted_insert_cmp [where k = k and x = x]
    by (simp add: set_array_sort [unfolded array_sort_def] del: onGrid.simps(1))
qed

text \<open>The sort is stable: the elements of one key keep their order.\<close>

lemma filter_insert_cmp:
  "filter (\<lambda>y. k y = v) (insert_cmp (\<lambda>a b. num_sub (k b) (k a)) x ys) =
     (if k x = v then x # filter (\<lambda>y. k y = v) ys else filter (\<lambda>y. k y = v) ys)"
  by (induction ys) (auto dest: num_gt_sub_zero_neq)

lemma filter_array_sort:
  "filter (\<lambda>y. k y = v) (array_sort (\<lambda>a b. num_sub (k b) (k a)) xs) = filter (\<lambda>y. k y = v) xs"
  unfolding array_sort_def by (induction xs) (simp_all add: filter_insert_cmp)

section \<open>The profile: accumulators and rounding\<close>

lemma if_add_points: "(if c then x + n else x) = x + (if c then n else (0::nat))"
  by simp

text \<open>The accumulators, statement by statement.\<close>

lemma doshaPoints_sum:
  "doshaPoints params =
    (pointsFor (bodyTemperature params) ''cold'' 2 + pointsFor (digestion params) ''irregular'' 3 +
     pointsFor (sleepPattern params) ''light'' 2 + pointsFor (energyLevel params) ''variable'' 2 +
     pointsFor (skinType params) ''dry'' 2 + pointsFor (stressLevel params) ''high'' 2,
     pointsFor (bodyTemperature params) ''warm'' 2 + pointsFor (digestion params) ''strong'' 3 +
     pointsFor (sleepPattern params) ''moderate'' 2 + pointsFor (energyLevel params) ''high'' 2 +
     pointsFor (skinType params) ''oily'' 2 + pointsFor (stressLevel params) ''moderate'' 1,
     pointsFor (bodyTemperature params) ''neutral'' 1 + pointsFor (digestion params) ''slow'' 3 +
     pointsFor (sleepPattern params) ''deep'' 2 + pointsFor (energyLevel params) ''steady'' 2 +
     pointsFor (skinType params) ''normal'' 1 + pointsFor (stressLevel params) ''low'' 1)"
  unfolding doshaPoints_def Let_def pointsFor_def
  by (simp add: if_add_points split del: if_split)

text \<open>
  The percentages.  For a total of at most 13 points the two roundings of
  \<^verbatim>\<open>(x / total) * 100\<close> move the exact share \<open>100 x / total\<close> by less than
  \<open>10\<^sup>-\<^sup>6\<close>, while a share that is not half an integer is at least \<open>1 / 26\<close> away from
  the next half: \<^verbatim>\<open>Math.round\<close> then sees the exact share.  The shares that are half an
  integer are the odd eighths, which binary64 represents exactly.
\<close>

lemma scaled_near:
  assumes "0 < t" "t \<le> 13" "x \<le> t"
  shows "\<exists>y. num_mul (num_div (Num (of_nat x)) (Num (of_nat t))) (Num 100) = Num y \<and>
    \<bar>y - 100 * of_nat x / of_nat t\<bar> \<le> 1 / 1000000"
proof (cases "x = 0")
  case True
  with assms(1) show ?thesis by (simp add: double_def)
next
  case False
  define q :: rat where "q = of_nat x / of_nat t"
  from False assms have q: "0 < q" "q \<le> 1" by (simp_all add: q_def)
  then have "q < 1000" by simp
  from double_error_small [OF q(1) this] obtain y1
    where y1: "double q = Num y1" "\<bar>y1 - q\<bar> \<le> (q + 1) / 1000000000" by blast
  have "1 / 13 \<le> q"
  proof -
    have "1 \<le> (of_nat x :: rat)" using False by simp
    moreover have "(of_nat t :: rat) \<le> 13" using assms(2) by simp
    moreover have "(0::rat) < of_nat t" using assms(1) by simp
    ultimately show ?thesis unfolding q_def by (simp add: field_simps; linarith)
  qed
  have y1b: "q * 1000000000 - (q + 1) \<le> y1 * 1000000000"
    "y1 * 1000000000 \<le> q * 1000000000 + (q + 1)"
    using abs_bound_scaled [OF y1(2)] by simp_all
  from \<open>1 / 13 \<le> q\<close> have q13: "1 \<le> q * 13" by simp
  from y1b q13 q(2) have b1: "0 < y1 * 100" "y1 * 100 < 1000" by linarith+
  from double_error_small [OF b1] obtain y2
    where y2: "double (y1 * 100) = Num y2" "\<bar>y2 - y1 * 100\<bar> \<le> (y1 * 100 + 1) / 1000000000" by blast
  have y2b: "y1 * 100 * 1000000000 - (y1 * 100 + 1) \<le> y2 * 1000000000"
    "y2 * 1000000000 \<le> y1 * 100 * 1000000000 + (y1 * 100 + 1)"
    using abs_bound_scaled [OF y2(2)] by simp_all
  have "y2 - 100 * q \<le> 1 / 1000000" "- (1 / 1000000) \<le> y2 - 100 * q"
    using y1b y2b q by linarith+
  then have "\<bar>y2 - 100 * q\<bar> \<le> 1 / 1000000" by (simp only: abs_le_iff) simp
  moreover have "num_mul (num_div (Num (of_nat x)) (Num (of_nat t))) (Num 100) = Num y2"
    using assms(1) y1(1) y2(1) by (simp add: q_def)
  ultimately show ?thesis by (intro exI [of _ y2]) (simp add: q_def)
qed

lemma percentage_no_tie:
  assumes "0 < t" "t \<le> 13" "x \<le> t" "(200 * int x + int t) mod (2 * int t) \<noteq> 0"
  shows "percentage x t = Num (of_int (roundedShare (int t) (int x)))"
proof -
  define R where "R = (200 * int x + int t) div (2 * int t)"
  define m where "m = (200 * int x + int t) mod (2 * int t)"
  have t: "0 < 2 * int t" "2 * int t \<le> 26" using assms(1,2) by simp_all
  have m: "1 \<le> m" "m \<le> 2 * int t - 1"
    using assms(4) pos_mod_sign [OF t(1), of "200 * int x + int t"]
      pos_mod_bound [OF t(1), of "200 * int x + int t"] by (simp_all add: m_def)
  have "2 * int t * R + m = 200 * int x + int t"
    unfolding R_def m_def by (rule mult_div_mod_eq)
  then have "(of_int (2 * int t * R + m) :: rat) = of_int (200 * int x + int t)" by (simp only:)
  then have eq: "2 * of_nat t * of_int R + of_int m = 200 * (of_nat x :: rat) + of_nat t" by simp
  define z :: rat where "z = 100 * of_nat x / of_nat t"
  have tq: "(0::rat) < of_nat t" "(of_nat t :: rat) \<le> 13" using assms(1,2) by simp_all
  have z: "z + 1 / 2 = of_int R + of_int m / (2 * of_nat t)"
    using eq tq(1) by (simp add: z_def field_simps)
  have lo: "1 / 26 \<le> of_int m / (2 * (of_nat t :: rat))"
  proof -
    have "(1::rat) \<le> of_int m" using m(1) by simp
    with tq show ?thesis by (simp add: field_simps; linarith)
  qed
  have hi: "of_int m / (2 * (of_nat t :: rat)) \<le> 1 - 1 / 26"
  proof -
    have "(of_int m :: rat) \<le> of_int (2 * int t - 1)" using m(2) by (simp only: of_int_le_iff)
    then have "(of_int m :: rat) \<le> 2 * of_nat t - 1" by simp
    with tq show ?thesis by (simp add: field_simps; linarith)
  qed
  from scaled_near [OF assms(1-3)] obtain y
    where y: "num_mul (num_div (Num (of_nat x)) (Num (of_nat t))) (Num 100) = Num y"
      "\<bar>y - z\<bar> \<le> 1 / 1000000" unfolding z_def by blast
  have yb: "z * 1000000 - 1 \<le> y * 1000000" "y * 1000000 \<le> z * 1000000 + 1"
    using abs_bound_scaled [OF y(2)] by simp_all
  have "\<lfloor>y + 1 / 2\<rfloor> = R"
  proof (rule floor_unique)
    show "of_int R \<le> y + 1 / 2" using yb z lo by linarith
    show "y + 1 / 2 < of_int R + 1" using yb z hi by linarith
  qed
  with y(1) show ?thesis
    by (simp add: percentage_def roundedShare_def R_def)
qed

lemma tie_pairs:
  "\<forall>t \<in> set [1 ..< 14]. \<forall>x \<in> set [0 ..< Suc t].
     (200 * int x + int t) mod (2 * int t) = 0 \<longrightarrow> t = 8 \<and> x \<in> {1, 3, 5, 7}"
  by code_simp

lemma percentage_ties:
  "percentage (Suc 0) 8 = Num 13" "percentage 3 8 = Num 38"
  "percentage 5 8 = Num 63" "percentage 7 8 = Num 88"
  by code_simp+

lemma percentage_div:
  assumes "0 < t" "t \<le> 13" "x \<le> t"
  shows "percentage x t = Num (of_int (roundedShare (int t) (int x)))"
proof (cases "(200 * int x + int t) mod (2 * int t) = 0")
  case False
  with assms show ?thesis by (intro percentage_no_tie)
next
  case True
  from assms have tx: "t \<in> set [1 ..< 14]" "x \<in> set [0 ..< Suc t]" by auto
  from tie_pairs [rule_format, OF tx True] show ?thesis by (auto simp: percentage_ties roundedShare_def)
qed

lemma percentage_zero_total: "percentage 0 0 = NaN"
  by (simp add: percentage_def inf_of_sign_def)

lemma roundedShare_bounds:
  assumes "0 < t"
  shows "2 * (t * roundedShare t x) \<le> 200 * x + t"
    and "200 * x + t < 2 * (t * roundedShare t x) + 2 * t"
proof -
  have m: "0 < 2 * t" using assms by simp
  have e: "2 * t * roundedShare t x + (200 * x + t) mod (2 * t) = 200 * x + t"
    unfolding roundedShare_def by (rule mult_div_mod_eq)
  have "0 \<le> (200 * x + t) mod (2 * t)" using m by (rule pos_mod_sign)
  with e show "2 * (t * roundedShare t x) \<le> 200 * x + t" by (simp add: algebra_simps)
  have "(200 * x + t) mod (2 * t) < 2 * t" using m by (rule pos_mod_bound)
  with e show "200 * x + t < 2 * (t * roundedShare t x) + 2 * t" by (simp add: algebra_simps)
qed

lemma roundedShare_range:
  assumes "0 < t" "0 \<le> x" "x \<le> t"
  shows "0 \<le> roundedShare t x \<and> roundedShare t x \<le> 100"
proof
  show "0 \<le> roundedShare t x"
    unfolding roundedShare_def using assms by (simp add: pos_imp_zdiv_nonneg_iff)
  show "roundedShare t x \<le> 100"
  proof (rule ccontr)
    assume "\<not> roundedShare t x \<le> 100"
    then have "101 \<le> roundedShare t x" by simp
    then have "t * 101 \<le> t * roundedShare t x"
      using assms(1) by (intro mult_left_mono) simp_all
    moreover have "2 * (t * roundedShare t x) \<le> 200 * x + t"
      using assms(1) by (rule roundedShare_bounds)
    ultimately show False using assms by linarith
  qed
qed

text \<open>
  Three shares rounded one by one: each is off by less than a half, so their sum is off
  by at most one.
\<close>

lemma roundedShare_sum:
  assumes "0 < t" "t = a + b + c"
  shows "99 \<le> roundedShare t a + roundedShare t b + roundedShare t c \<and>
         roundedShare t a + roundedShare t b + roundedShare t c \<le> 101"
proof -
  define S where "S = roundedShare t a + roundedShare t b + roundedShare t c"
  define X Y Z where "X = t * roundedShare t a" and "Y = t * roundedShare t b"
    and "Z = t * roundedShare t c"
  have lo: "2 * X \<le> 200 * a + t" "2 * Y \<le> 200 * b + t" "2 * Z \<le> 200 * c + t"
    unfolding X_def Y_def Z_def using assms(1) by (rule roundedShare_bounds)+
  have hi: "200 * a + t < 2 * X + 2 * t" "200 * b + t < 2 * Y + 2 * t"
    "200 * c + t < 2 * Z + 2 * t"
    unfolding X_def Y_def Z_def using assms(1) by (rule roundedShare_bounds)+
  have S: "t * S = X + Y + Z" by (simp add: S_def X_def Y_def Z_def algebra_simps)
  have le: "a + b + c \<le> t" and ge: "t \<le> a + b + c" using assms(2) by simp_all
  have up: "2 * X + 2 * Y + 2 * Z \<le> 203 * t" using lo le by linarith
  have dn: "197 * t < 2 * X + 2 * Y + 2 * Z" using hi ge by linarith
  have "S \<le> 101"
  proof (rule ccontr)
    assume "\<not> S \<le> 101"
    then have "102 \<le> S" by simp
    then have "t * 102 \<le> t * S" using assms(1) by (intro mult_left_mono) simp_all
    then have "t * 102 \<le> X + Y + Z" by (simp only: S)
    with up assms(1) show False by linarith
  qed
  moreover have "99 \<le> S"
  proof (rule ccontr)
    assume "\<not> 99 \<le> S"
    then have "S \<le> 98" by simp
    then have "t * S \<le> t * 98" using assms(1) by (intro mult_left_mono) simp_all
    then have "X + Y + Z \<le> t * 98" by (simp only: S)
    with dn assms(1) show False by linarith
  qed
  ultimately show ?thesis by (simp add: S_def)
qed

text \<open>A valid value of an attribute scores its points on exactly one accumulator.\<close>

lemma points_bodyTemperature:
  "v \<in> {''cold'', ''neutral'', ''warm''} \<Longrightarrow>
     pointsFor v ''cold'' 2 + pointsFor v ''warm'' 2 + pointsFor v ''neutral'' 1 \<in> {1, 2}"
  by (auto simp: pointsFor_def)

lemma points_digestion:
  "v \<in> {''irregular'', ''strong'', ''slow''} \<Longrightarrow>
     pointsFor v ''irregular'' 3 + pointsFor v ''strong'' 3 + pointsFor v ''slow'' 3 = 3"
  by (auto simp: pointsFor_def)

lemma points_sleepPattern:
  "v \<in> {''light'', ''moderate'', ''deep''} \<Longrightarrow>
     pointsFor v ''light'' 2 + pointsFor v ''moderate'' 2 + pointsFor v ''deep'' 2 = 2"
  by (auto simp: pointsFor_def)

lemma points_energyLevel:
  "v \<in> {''variable'', ''high'', ''steady''} \<Longrightarrow>
     pointsFor v ''variable'' 2 + pointsFor v ''high'' 2 + pointsFor v ''steady'' 2 = 2"
  by (auto simp: pointsFor_def)

lemma points_skinType:
  "v \<in> {''dry'', ''oily'', ''normal''} \<Longrightarrow>
     pointsFor v ''dry'' 2 + pointsFor v ''oily'' 2 + pointsFor v ''normal'' 1 \<in> {1, 2}"
  by (auto simp: pointsFor_def)

lemma points_stressLevel:
  "v \<in> {''high'', ''moderate'', ''low''} \<Longrightarrow>
     pointsFor v ''high'' 2 + pointsFor v ''moderate'' 1 + pointsFor v ''low'' 1 \<in> {1, 2}"
  by (auto simp: pointsFor_def)

lemma valid_total_bounds:
  assumes "validHealthParameters params" and "doshaPoints params = (v, p, k)"
  shows "10 \<le> v + p + k \<and> v + p + k \<le> 13"
proof -
  have dom: "bodyTemperature params \<in> {''cold'', ''neutral'', ''warm''}"
    "digestion params \<in> {''irregular'', ''strong'', ''slow''}"
    "sleepPattern params \<in> {''light'', ''moderate'', ''deep''}"
    "energyLevel params \<in> {''variable'', ''high'', ''steady''}"
    "skinType params \<in> {''dry'', ''oily'', ''normal''}"
    "stressLevel params \<in> {''high'', ''moderate'', ''low''}"
    using assms(1) by (simp_all only: validHealthParameters_def)
  note pts = points_bodyTemperature [OF dom(1)] points_digestion [OF dom(2)]
    points_sleepPattern [OF dom(3)] points_energyLevel [OF dom(4)]
    points_skinType [OF dom(5)] points_stressLevel [OF dom(6)]
  from assms(2) have
    "v = pointsFor (bodyTemperature params) ''cold'' 2 + pointsFor (digestion params) ''irregular'' 3 +
     pointsFor (sleepPattern params) ''light'' 2 + pointsFor (energyLevel params) ''variable'' 2 +
     pointsFor (skinType params) ''dry'' 2 + pointsFor (stressLevel params) ''high'' 2"
    "p = pointsFor (bodyTemperature params) ''warm'' 2 + pointsFor (digestion params) ''strong'' 3 +
     pointsFor (sleepPattern params) ''moderate'' 2 + pointsFor (energyLevel params) ''high'' 2 +
     pointsFor (skinType params) ''oily'' 2 + pointsFor (stressLevel params) ''moderate'' 1"
    "k = pointsFor (bodyTemperature params) ''neutral'' 1 + pointsFor (digestion params) ''slow'' 3 +
     pointsFor (sleepPattern params) ''deep'' 2 + pointsFor (energyLevel params) ''steady'' 2 +
     pointsFor (skinType params) ''normal'' 1 + pointsFor (stressLevel params) ''low'' 1"
    unfolding doshaPoints_sum by simp_all
  with pts show ?thesis by auto
qed

text \<open>No input scores more than 13 points.\<close>

lemma points_le:
  "pointsFor v ''cold'' 2 + pointsFor v ''warm'' 2 + pointsFor v ''neutral'' 1 \<le> 2"
  "pointsFor v ''irregular'' 3 + pointsFor v ''strong'' 3 + pointsFor v ''slow'' 3 \<le> 3"
  "pointsFor v ''light'' 2 + pointsFor v ''moderate'' 2 + pointsFor v ''deep'' 2 \<le> 2"
  "pointsFor v ''variable'' 2 + pointsFor v ''high'' 2 + pointsFor v ''steady'' 2 \<le> 2"
  "pointsFor v ''dry'' 2 + pointsFor v ''oily'' 2 + pointsFor v ''normal'' 1 \<le> 2"
  "pointsFor v ''high'' 2 + pointsFor v ''moderate'' 1 + pointsFor v ''low'' 1 \<le> 2"
  by (simp_all add: pointsFor_def)

lemma total_le_13:
  assumes "doshaPoints params = (v, p, k)"
  shows "v + p + k \<le> 13"
proof -
  note pts = points_le(1) [of "bodyTemperature params"] points_le(2) [of "digestion params"]
    points_le(3) [of "sleepPattern params"] points_le(4) [of "energyLevel params"]
    points_le(5) [of "skinType params"] points_le(6) [of "stressLevel params"]
  from assms have
    "v = pointsFor (bodyTemperature params) ''cold'' 2 + pointsFor (digestion params) ''irregular'' 3 +
     pointsFor (sleepPattern params) ''light'' 2 + pointsFor (energyLevel params) ''variable'' 2 +
     pointsFor (skinType params) ''dry'' 2 + pointsFor (stressLevel params) ''high'' 2"
    "p = pointsFor (bodyTemperature params) ''warm'' 2 + pointsFor (digestion params) ''strong'' 3 +
     pointsFor (sleepPattern params) ''moderate'' 2 + pointsFor (energyLevel params) ''high'' 2 +
     pointsFor (skinType params) ''oily'' 2 + pointsFor (stressLevel params) ''moderate'' 1"
    "k = pointsFor (bodyTemperature params) ''neutral'' 1 + pointsFor (digestion params) ''slow'' 3 +
     pointsFor (sleepPattern params) ''deep'' 2 + pointsFor (energyLevel params) ''steady'' 2 +
     pointsFor (skinType params) ''normal'' 1 + pointsFor (stressLevel params) ''low'' 1"
    unfolding doshaPoints_sum by simp_all
  with pts show ?thesis by linarith
qed

lemma profile_of_points:
  assumes "doshaPoints params = (v, p, k)" and "0 < v + p + k"
  shows "calculateDoshaProfile params =
    \<lparr> vata = Num (of_int (roundedShare (int (v + p + k)) (int v))),
      pitta = Num (of_int (roundedShare (int (v + p + k)) (int p))),
      kapha = Num (of_int (roundedShare (int (v + p + k)) (int k))) \<rparr>"
proof -
  have le: "v + p + k \<le> 13" using assms(1) by (rule total_le_13)
  have "percentage v (v + p + k) = Num (of_int (roundedShare (int (v + p + k)) (int v)))"
    "percentage p (v + p + k) = Num (of_int (roundedShare (int (v + p + k)) (int p)))"
    "percentage k (v + p + k) = Num (of_int (roundedShare (int (v + p + k)) (int k)))"
    using assms(2) le by (intro percentage_div; simp)+
  with assms(1) show ?thesis by (simp add: calculateDoshaProfile_def Let_def)
qed

text \<open>The rows of the weight table agree with the statements of the source.\<close>

lemma weights_bodyTemperature:
  "v \<in> {''cold'', ''neutral'', ''warm''} \<Longrightarrow>
     bodyTemperatureWeights v =
       Some (pointsFor v ''cold'' 2, pointsFor v ''warm'' 2, pointsFor v ''neutral'' 1) \<and>
     oneAccumulator (pointsFor v ''cold'' 2, pointsFor v ''warm'' 2, pointsFor v ''neutral'' 1)"
  by (auto simp: bodyTemperatureWeights_def pointsFor_def)

lemma weights_digestion:
  "v \<in> {''irregular'', ''strong'', ''slow''} \<Longrightarrow>
     digestionWeights v =
       Some (pointsFor v ''irregular'' 3, pointsFor v ''strong'' 3, pointsFor v ''slow'' 3) \<and>
     oneAccumulator (pointsFor v ''irregular'' 3, pointsFor v ''strong'' 3, pointsFor v ''slow'' 3)"
  by (auto simp: digestionWeights_def pointsFor_def)

lemma weights_sleepPattern:
  "v \<in> {''light'', ''moderate'', ''deep''} \<Longrightarrow>
     sleepPatternWeights v =
       Some (pointsFor v ''light'' 2, pointsFor v ''moderate'' 2, pointsFor v ''deep'' 2) \<and>
     oneAccumulator (pointsFor v ''light'' 2, pointsFor v ''moderate'' 2, pointsFor v ''deep'' 2)"
  by (auto simp: sleepPatternWeights_def pointsFor_def)

lemma weights_energyLevel:
  "v \<in> {''variable'', ''high'', ''steady''} \<Longrightarrow>
     energyLevelWeights v =
       Some (pointsFor v ''variable'' 2, pointsFor v ''high'' 2, pointsFor v ''steady'' 2) \<and>
     oneAccumulator (pointsFor v ''variable'' 2, pointsFor v ''high'' 2, pointsFor v ''steady'' 2)"
  by (auto simp: energyLevelWeights_def pointsFor_def)

lemma weights_skinType:
  "v \<in> {''dry'', ''oily'', ''normal''} \<Longrightarrow>
     skinTypeWeights v =
       Some (pointsFor v ''dry'' 2, pointsFor v ''oily'' 2, pointsFor v ''normal'' 1) \<and>
     oneAccumulator (pointsFor v ''dry'' 2, pointsFor v ''oily'' 2, pointsFor v ''normal'' 1)"
  by (auto simp: skinTypeWeights_def pointsFor_def)

lemma weights_stressLevel:
  "v \<in> {''high'', ''moderate'', ''low''} \<Longrightarrow>
     stressLevelWeights v =
       Some (pointsFor v ''high'' 2, pointsFor v ''moderate'' 1, pointsFor v ''low'' 1) \<and>
     oneAccumulator (pointsFor v ''high'' 2, pointsFor v ''moderate'' 1, pointsFor v ''low'' 1)"
  by (auto simp: stressLevelWeights_def pointsFor_def)

text \<open>The same for an arbitrary value: a value outside the row adds nothing.\<close>

lemma rowPoints_weights:
  "rowPoints bodyTemperatureWeights v =
     (pointsFor v ''cold'' 2, pointsFor v ''warm'' 2, pointsFor v ''neutral'' 1)"
  "rowPoints digestionWeights v =
     (pointsFor v ''irregular'' 3, pointsFor v ''strong'' 3, pointsFor v ''slow'' 3)"
  "rowPoints sleepPatternWeights v =
     (pointsFor v ''light'' 2, pointsFor v ''moderate'' 2, pointsFor v ''deep'' 2)"
  "rowPoints energyLevelWeights v =
     (pointsFor v ''variable'' 2, pointsFor v ''high'' 2, pointsFor v ''steady'' 2)"
  "rowPoints skinTypeWeights v =
     (pointsFor v ''dry'' 2, pointsFor v ''oily'' 2, pointsFor v ''normal'' 1)"
  "rowPoints stressLevelWeights v =
     (pointsFor v ''high'' 2, pointsFor v ''moderate'' 1, pointsFor v ''low'' 1)"
  by (simp_all add: rowPoints_def pointsFor_def bodyTemperatureWeights_def digestionWeights_def
      sleepPatternWeights_def energyLevelWeights_def skinTypeWeights_def stressLevelWeights_def)

lemma doshaPoints_rows:
  "doshaPoints params =
     addPoints (rowPoints bodyTemperatureWeights (bodyTemperature params))
    (addPoints (rowPoints digestionWeights (digestion params))
    (addPoints (rowPoints sleepPatternWeights (sleepPattern params))
    (addPoints (rowPoints energyLevelWeights (energyLevel params))
    (addPoints (rowPoints skinTypeWeights (skinType params))
               (rowPoints stressLevelWeights (stressLevel params))))))"
  unfolding doshaPoints_sum rowPoints_weights by simp

text \<open>The total is zero exactly when no scored attribute has a value of its set.\<close>

lemma points_zero:
  "(pointsFor v ''cold'' 2 + pointsFor v ''warm'' 2 + pointsFor v ''neutral'' 1 = 0) =
     (v \<notin> {''cold'', ''neutral'', ''warm''})"
  "(pointsFor v ''irregular'' 3 + pointsFor v ''strong'' 3 + pointsFor v ''slow'' 3 = 0) =
     (v \<notin> {''irregular'', ''strong'', ''slow''})"
  "(pointsFor v ''light'' 2 + pointsFor v ''moderate'' 2 + pointsFor v ''deep'' 2 = 0) =
     (v \<notin> {''light'', ''moderate'', ''deep''})"
  "(pointsFor v ''variable'' 2 + pointsFor v ''high'' 2 + pointsFor v ''steady'' 2 = 0) =
     (v \<notin> {''variable'', ''high'', ''steady''})"
  "(pointsFor v ''dry'' 2 + pointsFor v ''oily'' 2 + pointsFor v ''normal'' 1 = 0) =
     (v \<notin> {''dry'', ''oily'', ''normal''})"
  "(pointsFor v ''high'' 2 + pointsFor v ''moderate'' 1 + pointsFor v ''low'' 1 = 0) =
     (v \<notin> {''high'', ''moderate'', ''low''})"
  by (auto simp: pointsFor_def)

lemma totalPoints_zero:
  "(totalPoints params = 0) = noScoredAttribute params"
proof -
  define g1 where "g1 = pointsFor (bodyTemperature params) ''cold'' 2 +
    pointsFor (bodyTemperature params) ''warm'' 2 + pointsFor (bodyTemperature params) ''neutral'' 1"
  define g2 where "g2 = pointsFor (digestion params) ''irregular'' 3 +
    pointsFor (digestion params) ''strong'' 3 + pointsFor (digestion params) ''slow'' 3"
  define g3 where "g3 = pointsFor (sleepPattern params) ''light'' 2 +
    pointsFor (sleepPattern params) ''moderate'' 2 + pointsFor (sleepPattern params) ''deep'' 2"
  define g4 where "g4 = pointsFor (energyLevel params) ''variable'' 2 +
    pointsFor (energyLevel params) ''high'' 2 + pointsFor (energyLevel params) ''steady'' 2"
  define g5 where "g5 = pointsFor (skinType params) ''dry'' 2 +
    pointsFor (skinType params) ''oily'' 2 + pointsFor (skinType params) ''normal'' 1"
  define g6 where "g6 = pointsFor (stressLevel params) ''high'' 2 +
    pointsFor (stressLevel params) ''moderate'' 1 + pointsFor (stressLevel params) ''low'' 1"
  have "totalPoints params = g1 + g2 + g3 + g4 + g5 + g6"
    by (simp add: totalPoints_def doshaPoints_sum g1_def g2_def g3_def g4_def g5_def g6_def)
  then have "(totalPoints params = 0) = (g1 = 0 \<and> g2 = 0 \<and> g3 = 0 \<and> g4 = 0 \<and> g5 = 0 \<and> g6 = 0)"
    by simp
  also have "\<dots> = noScoredAttribute params"
    unfolding g1_def g2_def g3_def g4_def g5_def g6_def points_zero noScoredAttribute_def ..
  finally show ?thesis .
qed

section \<open>The lifestyle score: the running total\<close>

text \<open>The total only ever grows by terms that are greater than zero.\<close>

lemma nonNegative_add: "nonNegative a \<Longrightarrow> nonNegative b \<Longrightarrow> nonNegative (num_add a b)"
  by (cases a; cases b) (auto simp: double_nonneg)

lemma nonNegative_not_NaN: "nonNegative x \<Longrightarrow> x \<noteq> NaN"
  by (cases x) auto

lemma num_gt_zero_nonNegative: "num_gt x (Num 0) \<Longrightarrow> nonNegative x"
  by (cases x) (auto simp: num_gt_def)

lemma addRisk_nonNegative: "nonNegative (snd st) \<Longrightarrow> nonNegative (snd (addRisk f i r st))"
  by (simp add: addRisk_def nonNegative_add num_gt_zero_nonNegative)

lemma lifestyleRisks_nonNegative: "nonNegative (snd (lifestyleRisks lifestyle params))"
  unfolding lifestyleRisks_def Let_def
  by (intro addRisk_nonNegative) simp

lemma Math_min_100: "nonNegative x \<Longrightarrow> \<exists>r. Math_min (Num 100) x = Num r \<and> 0 \<le> r \<and> r \<le> 100"
  by (cases x) (auto simp: Math_min_def)

text \<open>The array of factors before the sort: the terms above zero, in their order.\<close>

lemma addRisk_fst:
  "fst (addRisk f i r st) =
     fst st @ (if num_gt r (Num 0) then [\<lparr> factor = f, impact = i, score = r \<rparr>] else [])"
  by (simp add: addRisk_def)

lemma lifestyleRisks_terms:
  "fst (lifestyleRisks lifestyle params) =
     map (\<lambda>(f, s). \<lparr> factor = f, impact = impactOf f s, score = s \<rparr>)
       (filter (\<lambda>(f, s). num_gt s (Num 0)) (riskTerms lifestyle params))"
  unfolding lifestyleRisks_def Let_def addRisk_fst riskTerms_def
  by (simp add: impactOf_def)

text \<open>Every term is a binary64 number, and a term above zero is not \<^verbatim>\<open>NaN\<close>.\<close>

lemma onGrid_consts: "onGrid (Num 0)" "onGrid (Num (numeral w))"
  using onGrid_int [of 0] onGrid_int [of "numeral w"] by (simp_all del: onGrid.simps(1))

lemma riskTerms_onGrid: "\<forall>t \<in> set (riskTerms lifestyle params). onGrid (snd t)"
  by (simp add: riskTerms_def sleepRisk_def exerciseRisk_def stressRisk_def screenRisk_def
      waterRisk_def mealRisk_def onGrid_Math_max onGrid_Math_min onGrid_num_mul onGrid_consts
      del: onGrid.simps(1))

lemma lifestyleRisks_score_defined:
  "\<forall>e \<in> set (fst (lifestyleRisks lifestyle params)). score e \<noteq> NaN \<and> onGrid (score e)"
  unfolding lifestyleRisks_terms using riskTerms_onGrid [of lifestyle params]
  by (auto simp: num_gt_def simp del: onGrid.simps(1))

section \<open>The findings: every probability is a number\<close>

text \<open>
  A guard \<^verbatim>\<open>x > 40\<close> that holds excludes \<^verbatim>\<open>NaN\<close> and \<open>-\<infinity>\<close> for \<open>x\<close>, so the
  probability computed behind it is a non-negative binary64 number or \<open>+\<infinity>\<close>, and the
  comparator of the final sort is consistent on the findings.
\<close>

lemma num_gt_nonNegative: "num_gt x (Num a) \<Longrightarrow> 0 \<le> a \<Longrightarrow> nonNegative x"
  by (cases x) (auto simp: num_gt_def)

lemma nonNegative_div: "nonNegative x \<Longrightarrow> 0 < b \<Longrightarrow> nonNegative (num_div x (Num b))"
  by (cases x) (auto simp: double_nonneg inf_of_sign_def)

lemma nonNegative_sub: "num_gt x (Num a) \<Longrightarrow> nonNegative (num_sub x (Num a))"
  by (cases x) (auto simp: num_gt_def num_sub_def double_nonneg)

lemma probability_findings:
  "probability (anxietySleepDisorders d) = num_add (double (65 / 100)) (num_div (vata d) (Num 200))"
  "probability (digestiveIrregularity d) = num_add (double (55 / 100)) (num_div (vata d) (Num 250))"
  "probability (hyperacidity d) = num_add (double (60 / 100)) (num_div (pitta d) (Num 200))"
  "probability (skinInflammation d) = num_add (double (45 / 100)) (num_div (pitta d) (Num 250))"
  "probability (metabolicSyndrome d b) =
     num_add (num_add (double (55 / 100)) (num_div (kapha d) (Num 200)))
       (num_div (num_sub b (Num 25)) (Num 50))"
  "probability (sluggishDigestion d) = num_add (double (50 / 100)) (num_div (kapha d) (Num 250))"
  "probability digitalEyeStrain = double (70 / 100)"
  "probability (sleepDeprivation l) = double (75 / 100)"
  "probability chronicStress = double (68 / 100)"
  "probability constitutionalWeakness = double (50 / 100)"
  by (simp_all only: anxietySleepDisorders_def digestiveIrregularity_def hyperacidity_def
      skinInflammation_def metabolicSyndrome_def sluggishDigestion_def digitalEyeStrain_def
      sleepDeprivation_def chronicStress_def constitutionalWeakness_def
      DiseasePrediction.simps)

lemma probability_onGrid:
  "onGrid (probability (anxietySleepDisorders d))"
  "onGrid (probability (digestiveIrregularity d))"
  "onGrid (probability (hyperacidity d))"
  "onGrid (probability (skinInflammation d))"
  "onGrid (probability (metabolicSyndrome d b))"
  "onGrid (probability (sluggishDigestion d))"
  "onGrid (probability digitalEyeStrain)"
  "onGrid (probability (sleepDeprivation l))"
  "onGrid (probability chronicStress)"
  "onGrid (probability constitutionalWeakness)"
  by (simp_all only: probability_findings onGrid_num_add double_onGrid)

lemma guarded_probability:
  assumes "num_gt x (Num 40)" "0 \<le> c" "0 < b"
  shows "num_add (double c) (num_div x (Num b)) \<noteq> NaN"
    and "nonNegative (num_add (double c) (num_div x (Num b)))"
proof -
  have "nonNegative x" using assms(1) by (rule num_gt_nonNegative) simp
  then have "nonNegative (num_div x (Num b))" using assms(3) by (rule nonNegative_div)
  with double_nonneg [OF assms(2)]
  show "nonNegative (num_add (double c) (num_div x (Num b)))" by (rule nonNegative_add)
  then show "num_add (double c) (num_div x (Num b)) \<noteq> NaN" by (rule nonNegative_not_NaN)
qed

lemma predictions_defined:
  "\<forall>f \<in> set (predictions d l p). probability f \<noteq> NaN \<and> onGrid (probability f)"
proof -
  have a: "num_gt (vata d) (Num 40) \<Longrightarrow> probability (anxietySleepDisorders d) \<noteq> NaN"
    and b: "num_gt (vata d) (Num 40) \<Longrightarrow> probability (digestiveIrregularity d) \<noteq> NaN"
    and c: "num_gt (pitta d) (Num 40) \<Longrightarrow> probability (hyperacidity d) \<noteq> NaN"
    and e: "num_gt (pitta d) (Num 40) \<Longrightarrow> probability (skinInflammation d) \<noteq> NaN"
    and g: "num_gt (kapha d) (Num 40) \<Longrightarrow> probability (sluggishDigestion d) \<noteq> NaN"
    unfolding probability_findings by (rule guarded_probability(1); simp)+
  have h: "probability (metabolicSyndrome d (bmi p)) \<noteq> NaN"
    if k: "num_gt (kapha d) (Num 40)" and m: "num_gt (bmi p) (Num 25)"
  proof -
    have "nonNegative (num_add (double (55 / 100)) (num_div (kapha d) (Num 200)))"
      using k by (rule guarded_probability(2)) simp_all
    moreover have "nonNegative (num_div (num_sub (bmi p) (Num 25)) (Num 50))"
      using nonNegative_sub [OF m] by (rule nonNegative_div) simp
    ultimately have "nonNegative (probability (metabolicSyndrome d (bmi p)))"
      unfolding probability_findings by (rule nonNegative_add)
    then show ?thesis by (rule nonNegative_not_NaN)
  qed
  have n: "probability digitalEyeStrain \<noteq> NaN" "probability (sleepDeprivation l) \<noteq> NaN"
    "probability chronicStress \<noteq> NaN" "probability constitutionalWeakness \<noteq> NaN"
    unfolding probability_findings by (rule double_not_NaN)+
  show ?thesis
    unfolding predictions_def
    by (auto simp: a b c e g h n probability_onGrid simp del: onGrid.simps(1))
qed

text \<open>The array before the sort lists its findings in the order of the rules.\<close>

lemma disease_findings:
  "disease (anxietySleepDisorders d) = ''Anxiety & Sleep Disorders''"
  "disease (digestiveIrregularity d) = ''Digestive Irregularity (Vishamagni)''"
  "disease (hyperacidity d) = ''Hyperacidity & Inflammatory Conditions''"
  "disease (skinInflammation d) = ''Skin Inflammation & Rashes''"
  "disease (metabolicSyndrome d b) = ''Metabolic Syndrome Risk''"
  "disease (sluggishDigestion d) = ''Sluggish Digestion & Water Retention''"
  "disease digitalEyeStrain = ''Digital Eye Strain & Mental Fatigue''"
  "disease (sleepDeprivation l) = ''Sleep Deprivation Syndrome''"
  "disease chronicStress = ''Chronic Stress & Burnout Risk''"
  "disease constitutionalWeakness = ''Constitutional Weakness''"
  by (simp_all add: anxietySleepDisorders_def digestiveIrregularity_def hyperacidity_def
      skinInflammation_def metabolicSyndrome_def sluggishDigestion_def digitalEyeStrain_def
      sleepDeprivation_def chronicStress_def constitutionalWeakness_def)

lemma subseq_guard:
  "subseq (map f xs) ys \<Longrightarrow> f x = n \<Longrightarrow> subseq (map f ((if c then [x] else []) @ xs)) (n # ys)"
  by auto

lemma subseq_group:
  "subseq (map f xs) ys \<Longrightarrow> f x1 = n1 \<Longrightarrow> f x2 = n2 \<Longrightarrow>
   subseq (map f ((if g then (if c1 then [x1] else []) @ (if c2 then [x2] else []) else []) @ xs))
     (n1 # n2 # ys)"
  by auto

lemma predictions_rule_order:
  "subseq (map disease (predictions d l p)) ruleOrder"
  unfolding predictions_def ruleOrder_def
  by (intro subseq_group [where f = disease] subseq_guard [where f = disease])
    (simp_all add: disease_findings)

section \<open>The profile on arbitrary input\<close>

lemma profile_zero_total:
  assumes "totalPoints params = 0"
  shows "calculateDoshaProfile params = \<lparr> vata = NaN, pitta = NaN, kapha = NaN \<rparr>"
proof -
  obtain v p k where pts: "doshaPoints params = (v, p, k)"
    by (cases "doshaPoints params") auto
  with assms have "v = 0" "p = 0" "k = 0" by (simp_all add: totalPoints_def)
  with pts show ?thesis
    by (simp add: calculateDoshaProfile_def percentage_zero_total)
qed

lemma profile_positive_total:
  assumes "totalPoints params \<noteq> 0"
  shows "\<exists>a b c :: int.
    calculateDoshaProfile params =
      \<lparr> vata = Num (of_int a), pitta = Num (of_int b), kapha = Num (of_int c) \<rparr> \<and>
    0 \<le> a \<and> a \<le> 100 \<and> 0 \<le> b \<and> b \<le> 100 \<and> 0 \<le> c \<and> c \<le> 100"
proof -
  obtain v p k where pts: "doshaPoints params = (v, p, k)"
    by (cases "doshaPoints params") auto
  define t where "t = int (v + p + k)"
  from assms pts have pos: "0 < v + p + k" by (simp add: totalPoints_def)
  then have t: "0 < t" "int v \<le> t" "int p \<le> t" "int k \<le> t"
    unfolding t_def by linarith+
  have prof: "calculateDoshaProfile params =
    \<lparr> vata = Num (of_int (roundedShare t (int v))), pitta = Num (of_int (roundedShare t (int p))),
      kapha = Num (of_int (roundedShare t (int k))) \<rparr>"
    unfolding t_def using pts pos by (rule profile_of_points)
  have "0 \<le> roundedShare t (int v) \<and> roundedShare t (int v) \<le> 100"
    "0 \<le> roundedShare t (int p) \<and> roundedShare t (int p) \<le> 100"
    "0 \<le> roundedShare t (int k) \<and> roundedShare t (int k) \<le> 100"
    using roundedShare_range [OF t(1) _ t(2)] roundedShare_range [OF t(1) _ t(3)]
      roundedShare_range [OF t(1) _ t(4)] by simp_all
  with prof show ?thesis by blast
qed

lemma profile_ignores_numbers:
  "calculateDoshaProfile (params\<lparr>age := a, weight := w, height := h, exerciseFrequency := e\<rparr>)
     = calculateDoshaProfile params"
  by (simp add: calculateDoshaProfile_def doshaPoints_sum)

section \<open>The dominant score\<close>

lemma Math_max3_cases:
  assumes "a \<noteq> NaN" "b \<noteq> NaN" "c \<noteq> NaN"
  shows "Math_max3 a b c \<noteq> NaN"
    and "num_seq a (Math_max3 a b c) = (num_le b a \<and> num_le c a)"
    and "num_seq b (Math_max3 a b c) = (num_le a b \<and> num_le c b)"
    and "num_seq c (Math_max3 a b c) = (num_le a c \<and> num_le b c)"
  using assms
  by (cases a; cases b; cases c; auto simp: Math_max3_def Math_max_def num_seq_def num_le_def)+

lemma getDominantDosha_numbers:
  assumes "vata scores \<noteq> NaN" "pitta scores \<noteq> NaN" "kapha scores \<noteq> NaN"
  shows "(getDominantDosha scores = ''Vata'') =
           (num_le (pitta scores) (vata scores) \<and> num_le (kapha scores) (vata scores))"
    and "(getDominantDosha scores = ''Pitta'') =
           (num_lt (vata scores) (pitta scores) \<and> num_le (kapha scores) (pitta scores))"
    and "(getDominantDosha scores = ''Kapha'') =
           (num_lt (vata scores) (kapha scores) \<and> num_lt (pitta scores) (kapha scores))"
  using assms Math_max3_cases [OF assms]
  by (cases "vata scores"; cases "pitta scores"; cases "kapha scores";
      auto simp: getDominantDosha_def Let_def num_le_def)+

lemma getDominantDosha_NaN:
  "vata scores = NaN \<or> pitta scores = NaN \<or> kapha scores = NaN \<Longrightarrow>
     getDominantDosha scores = ''Kapha''"
  by (auto simp: getDominantDosha_def Let_def Math_max3_def Math_max_def num_seq_def)

section \<open>Rounding at work\<close>

text \<open>
  Computations in which the rounding decides the result.  The valid input below has the
  profile (55, 0, 45); the finding of the sixth rule then has the probability
  \<^verbatim>\<open>0.50 + 45 / 250 = 0.6799999999999999\<close>, just below the \<^verbatim>\<open>0.68\<close> of the ninth, and
  the sort moves the ninth in front of it.
\<close>

lemma rounding_orders_findings:
  "validHealthParameters
     \<lparr> age = Num 30, weight = Num 70, height = Num 170, bodyTemperature = ''neutral'',
       digestion = ''slow'', sleepPattern = ''light'', energyLevel = ''variable'',
       skinType = ''normal'', stressLevel = ''high'', exerciseFrequency = ''rarely'' \<rparr> \<and>
   calculateDoshaProfile
     \<lparr> age = Num 30, weight = Num 70, height = Num 170, bodyTemperature = ''neutral'',
       digestion = ''slow'', sleepPattern = ''light'', energyLevel = ''variable'',
       skinType = ''normal'', stressLevel = ''high'', exerciseFrequency = ''rarely'' \<rparr> =
     \<lparr> vata = Num 55, pitta = Num 0, kapha = Num 45 \<rparr> \<and>
   map (\<lambda>f. (disease f, probability f))
     (predictDiseases \<lparr> vata = Num 55, pitta = Num 0, kapha = Num 45 \<rparr>
        \<lparr> diet = ''vegetarian'', mealTiming = ''regular'', waterIntake = ''low'',
          sleepHours = Num 8, exerciseMinutes = Num 30, stressManagement = ''none'',
          screenTime = Num 4, lifestyle_exerciseFrequency = None \<rparr>
        \<lparr> age = Num 30, weight = Num 70, height = Num 170, bodyTemperature = ''neutral'',
       digestion = ''slow'', sleepPattern = ''light'', energyLevel = ''variable'',
       skinType = ''normal'', stressLevel = ''high'', exerciseFrequency = ''rarely'' \<rparr>) =
     [(''Chronic Stress & Burnout Risk'', Num (6124895493223875 / 9007199254740992)),
      (''Sluggish Digestion & Water Retention'', Num (3062447746611937 / 4503599627370496)),
      (''Constitutional Weakness'', Num (1 / 2))]"
proof (intro conjI)
  show "map (\<lambda>f. (disease f, probability f))
     (predictDiseases \<lparr> vata = Num 55, pitta = Num 0, kapha = Num 45 \<rparr>
        \<lparr> diet = ''vegetarian'', mealTiming = ''regular'', waterIntake = ''low'',
          sleepHours = Num 8, exerciseMinutes = Num 30, stressManagement = ''none'',
          screenTime = Num 4, lifestyle_exerciseFrequency = None \<rparr>
        \<lparr> age = Num 30, weight = Num 70, height = Num 170, bodyTemperature = ''neutral'',
       digestion = ''slow'', sleepPattern = ''light'', energyLevel = ''variable'',
       skinType = ''normal'', stressLevel = ''high'', exerciseFrequency = ''rarely'' \<rparr>) =
     [(''Chronic Stress & Burnout Risk'', Num (6124895493223875 / 9007199254740992)),
      (''Sluggish Digestion & Water Retention'', Num (3062447746611937 / 4503599627370496)),
      (''Constitutional Weakness'', Num (1 / 2))]"
    by code_simp
qed (simp_all add: validHealthParameters_def calculateDoshaProfile_def doshaPoints_sum pointsFor_def
      percentage_div roundedShare_def)

text \<open>
  With a weight of 49 and a height of 140 the quotient \<^verbatim>\<open>49 / 1.9599999999999997\<close> is
  \<^verbatim>\<open>25.000000000000004\<close>: the guard \<^verbatim>\<open>bmi > 25\<close> holds and the fifth rule fires, with
  the probability \<^verbatim>\<open>1.05\<close>.
\<close>

lemma rounding_of_bmi:
  "bmi \<lparr> age = Num 30, weight = Num 49, height = Num 140, bodyTemperature = ''neutral'',
         digestion = ''strong'', sleepPattern = ''deep'', energyLevel = ''steady'',
         skinType = ''normal'', stressLevel = ''low'', exerciseFrequency = ''rarely'' \<rparr> =
     Num (7036874417766401 / 281474976710656)"
  by code_simp

lemma rounding_fires_rule:
  "map (\<lambda>f. (disease f, probability f))
     (predictDiseases \<lparr> vata = Num 0, pitta = Num 0, kapha = Num 100 \<rparr>
        \<lparr> diet = ''vegetarian'', mealTiming = ''regular'', waterIntake = ''high'',
          sleepHours = Num 8, exerciseMinutes = Num 30, stressManagement = ''yoga'',
          screenTime = Num 4, lifestyle_exerciseFrequency = Some ''rarely'' \<rparr>
        \<lparr> age = Num 30, weight = Num 49, height = Num 140, bodyTemperature = ''neutral'',
          digestion = ''strong'', sleepPattern = ''deep'', energyLevel = ''steady'',
          skinType = ''normal'', stressLevel = ''low'', exerciseFrequency = ''rarely'' \<rparr>) =
     [(''Metabolic Syndrome Risk'', Num (4728779608739021 / 4503599627370496))]"
  by code_simp

text \<open>
  With a screen time of \<^verbatim>\<open>14.666666666666666\<close> (the binary64 number
  \<open>8256599316845909 / 2\<^sup>4\<^sup>9\<close>) the term \<^verbatim>\<open>(screenTime - 8) * 3\<close> is exactly 20 and ties
  with the meal term: the two factors stand in evaluation order.
\<close>

lemma rounding_ties_scores:
  "riskFactors (calculateLifestyleRisk
     \<lparr> diet = ''vegetarian'', mealTiming = ''irregular'', waterIntake = ''high'',
       sleepHours = Num 8, exerciseMinutes = Num 30, stressManagement = ''yoga'',
       screenTime = Num (8256599316845909 / 562949953421312),
       lifestyle_exerciseFrequency = Some ''daily'' \<rparr>
     \<lparr> age = Num 30, weight = Num 70, height = Num 170, bodyTemperature = ''cold'',
       digestion = ''irregular'', sleepPattern = ''light'', energyLevel = ''variable'',
       skinType = ''dry'', stressLevel = ''high'', exerciseFrequency = ''rarely'' \<rparr>) =
     [\<lparr> factor = ''Excessive Screen Time'', impact = ''Impact on eyes and posture'',
        score = Num 20 \<rparr>,
      \<lparr> factor = ''Irregular Meal Times'', impact = ''Impact on digestion and metabolism'',
        score = Num 20 \<rparr>]"
  by code_simp

text \<open>A height so small that \<^verbatim>\<open>height / 100\<close> rounds to zero gives an infinite quotient.\<close>

lemma rounding_to_zero:
  "bmi \<lparr> age = Num 30, weight = Num 70, height = Num (1 / 2 ^ 1074), bodyTemperature = ''neutral'',
         digestion = ''strong'', sleepPattern = ''deep'', energyLevel = ''steady'',
         skinType = ''normal'', stressLevel = ''low'', exerciseFrequency = ''rarely'' \<rparr> = PosInf"
proof -
  have "(0::rat) < 1 / 2 ^ 1074 / 100" by simp
  moreover have "(1::rat) / 2 ^ 1074 / 100 < 2 powi (- 1075)"
    by (simp add: power_int_minus field_simps)
  ultimately have "double (1 / 2 ^ 1074 / 100) = Num 0" by (rule double_underflow)
  then show ?thesis by (simp add: bmi_def inf_of_sign_def)
qed

section \<open>The claims\<close>

subsection \<open>C1: the percentages of a profile\<close>

text \<open>
  Claim C1 says that for every valid input the three percentages of
  \<^verbatim>\<open>calculateDoshaProfile\<close> are non-negative integers whose sum is exactly 100.  The
  code rounds each share on its own and reconciles nothing, so the sum can miss 100 by
  one: the first input below gives 33, 33, 33 (sum 99), the second 17, 42, 42 (sum 101).
\<close>

theorem calculateDoshaProfile_sum_counterexample:
  "validHealthParameters
     \<lparr> age = Num 30, weight = Num 70, height = Num 170, bodyTemperature = ''cold'',
       digestion = ''strong'', sleepPattern = ''deep'', energyLevel = ''steady'',
       skinType = ''dry'', stressLevel = ''moderate'', exerciseFrequency = ''daily'' \<rparr> \<and>
   calculateDoshaProfile
     \<lparr> age = Num 30, weight = Num 70, height = Num 170, bodyTemperature = ''cold'',
       digestion = ''strong'', sleepPattern = ''deep'', energyLevel = ''steady'',
       skinType = ''dry'', stressLevel = ''moderate'', exerciseFrequency = ''daily'' \<rparr> =
     \<lparr> vata = Num 33, pitta = Num 33, kapha = Num 33 \<rparr> \<and>
   scoreSum \<lparr> vata = Num 33, pitta = Num 33, kapha = Num 33 \<rparr> = Num 99 \<and>
   validHealthParameters
     \<lparr> age = Num 30, weight = Num 70, height = Num 170, bodyTemperature = ''warm'',
       digestion = ''strong'', sleepPattern = ''deep'', energyLevel = ''steady'',
       skinType = ''normal'', stressLevel = ''high'', exerciseFrequency = ''daily'' \<rparr> \<and>
   calculateDoshaProfile
     \<lparr> age = Num 30, weight = Num 70, height = Num 170, bodyTemperature = ''warm'',
       digestion = ''strong'', sleepPattern = ''deep'', energyLevel = ''steady'',
       skinType = ''normal'', stressLevel = ''high'', exerciseFrequency = ''daily'' \<rparr> =
     \<lparr> vata = Num 17, pitta = Num 42, kapha = Num 42 \<rparr> \<and>
   scoreSum \<lparr> vata = Num 17, pitta = Num 42, kapha = Num 42 \<rparr> = Num 101"
  by (simp add: validHealthParameters_def calculateDoshaProfile_def doshaPoints_def
      percentage_div roundedShare_def scoreSum_def)

text \<open>
  C1, amended: for every valid input the three percentages are non-negative integers,
  and their sum is 99, 100 or 101.
\<close>

theorem calculateDoshaProfile_percentages:
  assumes "validHealthParameters params"
  shows "\<exists>a b c :: int.
    calculateDoshaProfile params =
      \<lparr> vata = Num (of_int a), pitta = Num (of_int b), kapha = Num (of_int c) \<rparr> \<and>
    0 \<le> a \<and> 0 \<le> b \<and> 0 \<le> c \<and>
    (a + b + c = 99 \<or> a + b + c = 100 \<or> a + b + c = 101)"
proof -
  obtain v p k where pts: "doshaPoints params = (v, p, k)"
    by (cases "doshaPoints params") auto
  define t where "t = int (v + p + k)"
  have pos: "0 < v + p + k"
    using valid_total_bounds [OF assms pts] by linarith
  then have t: "0 < t" "t = int v + int p + int k" "int v \<le> t" "int p \<le> t" "int k \<le> t"
    unfolding t_def by linarith+
  have prof: "calculateDoshaProfile params =
    \<lparr> vata = Num (of_int (roundedShare t (int v))), pitta = Num (of_int (roundedShare t (int p))),
      kapha = Num (of_int (roundedShare t (int k))) \<rparr>"
    unfolding t_def using pts pos by (rule profile_of_points)
  have "0 \<le> roundedShare t (int v)" "0 \<le> roundedShare t (int p)" "0 \<le> roundedShare t (int k)"
    using roundedShare_range [OF t(1) _ t(3)] roundedShare_range [OF t(1) _ t(4)]
      roundedShare_range [OF t(1) _ t(5)] by simp_all
  moreover have "99 \<le> roundedShare t (int v) + roundedShare t (int p) + roundedShare t (int k) \<and>
      roundedShare t (int v) + roundedShare t (int p) + roundedShare t (int k) \<le> 101"
    using t(1,2) by (rule roundedShare_sum)
  then have "roundedShare t (int v) + roundedShare t (int p) + roundedShare t (int k) = 99 \<or>
     roundedShare t (int v) + roundedShare t (int p) + roundedShare t (int k) = 100 \<or>
     roundedShare t (int v) + roundedShare t (int p) + roundedShare t (int k) = 101"
    by linarith
  ultimately show ?thesis using prof by blast
qed

theorem calculateDoshaProfile_percentages_witness:
  "validHealthParameters
     \<lparr> age = Num 30, weight = Num 70, height = Num 170, bodyTemperature = ''cold'',
       digestion = ''irregular'', sleepPattern = ''light'', energyLevel = ''variable'',
       skinType = ''dry'', stressLevel = ''high'', exerciseFrequency = ''rarely'' \<rparr> \<and>
   (\<exists>a b c :: int.
    calculateDoshaProfile
     \<lparr> age = Num 30, weight = Num 70, height = Num 170, bodyTemperature = ''cold'',
       digestion = ''irregular'', sleepPattern = ''light'', energyLevel = ''variable'',
       skinType = ''dry'', stressLevel = ''high'', exerciseFrequency = ''rarely'' \<rparr> =
      \<lparr> vata = Num (of_int a), pitta = Num (of_int b), kapha = Num (of_int c) \<rparr> \<and>
    0 \<le> a \<and> 0 \<le> b \<and> 0 \<le> c \<and>
    (a + b + c = 99 \<or> a + b + c = 100 \<or> a + b + c = 101))"
proof -
  have v: "validHealthParameters
     \<lparr> age = Num 30, weight = Num 70, height = Num 170, bodyTemperature = ''cold'',
       digestion = ''irregular'', sleepPattern = ''light'', energyLevel = ''variable'',
       skinType = ''dry'', stressLevel = ''high'', exerciseFrequency = ''rarely'' \<rparr>"
    by (simp add: validHealthParameters_def)
  from v calculateDoshaProfile_percentages [OF v] show ?thesis by (rule conjI)
qed

subsection \<open>C2: no input is rejected\<close>

text \<open>
  Claim C2 says that the three functions fail on an input with an enumerated value
  outside its set or with a non-positive height or weight.  None of them validates
  anything.  On the first input below (body temperature \<^verbatim>\<open>'hot'\<close>, weight -70,
  height 0) each of them returns an ordinary result; on the second, where no scored
  attribute is in its set, \<^verbatim>\<open>calculateDoshaProfile\<close> returns \<^verbatim>\<open>NaN\<close> three times.
\<close>

theorem no_validation_counterexample:
  "\<not> validHealthParameters
     \<lparr> age = Num 30, weight = Num (- 70), height = Num 0, bodyTemperature = ''hot'',
       digestion = ''irregular'', sleepPattern = ''light'', energyLevel = ''variable'',
       skinType = ''dry'', stressLevel = ''high'', exerciseFrequency = ''rarely'' \<rparr> \<and>
   calculateDoshaProfile
     \<lparr> age = Num 30, weight = Num (- 70), height = Num 0, bodyTemperature = ''hot'',
       digestion = ''irregular'', sleepPattern = ''light'', energyLevel = ''variable'',
       skinType = ''dry'', stressLevel = ''high'', exerciseFrequency = ''rarely'' \<rparr> =
     \<lparr> vata = Num 100, pitta = Num 0, kapha = Num 0 \<rparr> \<and>
   map disease (predictDiseases \<lparr> vata = Num 100, pitta = Num 0, kapha = Num 0 \<rparr>
      \<lparr> diet = ''vegetarian'', mealTiming = ''regular'', waterIntake = ''high'',
        sleepHours = Num 8, exerciseMinutes = Num 30, stressManagement = ''yoga'',
        screenTime = Num 4, lifestyle_exerciseFrequency = None \<rparr>
      \<lparr> age = Num 30, weight = Num (- 70), height = Num 0, bodyTemperature = ''hot'',
        digestion = ''irregular'', sleepPattern = ''light'', energyLevel = ''variable'',
        skinType = ''dry'', stressLevel = ''high'', exerciseFrequency = ''rarely'' \<rparr>) =
     [''Digestive Irregularity (Vishamagni)'', ''Constitutional Weakness''] \<and>
   calculateLifestyleRisk
      \<lparr> diet = ''vegetarian'', mealTiming = ''regular'', waterIntake = ''high'',
        sleepHours = Num 8, exerciseMinutes = Num 30, stressManagement = ''yoga'',
        screenTime = Num 4, lifestyle_exerciseFrequency = None \<rparr>
      \<lparr> age = Num 30, weight = Num (- 70), height = Num 0, bodyTemperature = ''hot'',
        digestion = ''irregular'', sleepPattern = ''light'', energyLevel = ''variable'',
        skinType = ''dry'', stressLevel = ''high'', exerciseFrequency = ''rarely'' \<rparr> =
     \<lparr> overallRisk = Num 30,
       riskFactors = [\<lparr> factor = ''Low Physical Activity'', impact = ''High impact on metabolism'',
                       score = Num 30 \<rparr>] \<rparr> \<and>
   calculateDoshaProfile
     \<lparr> age = NaN, weight = Num 0, height = Num 0, bodyTemperature = ''hot'',
       digestion = ''fast'', sleepPattern = ''none'', energyLevel = ''low'',
       skinType = ''mixed'', stressLevel = ''extreme'', exerciseFrequency = ''never'' \<rparr> =
     \<lparr> vata = NaN, pitta = NaN, kapha = NaN \<rparr>"
proof (intro conjI)
  show "map disease (predictDiseases \<lparr> vata = Num 100, pitta = Num 0, kapha = Num 0 \<rparr>
      \<lparr> diet = ''vegetarian'', mealTiming = ''regular'', waterIntake = ''high'',
        sleepHours = Num 8, exerciseMinutes = Num 30, stressManagement = ''yoga'',
        screenTime = Num 4, lifestyle_exerciseFrequency = None \<rparr>
      \<lparr> age = Num 30, weight = Num (- 70), height = Num 0, bodyTemperature = ''hot'',
        digestion = ''irregular'', sleepPattern = ''light'', energyLevel = ''variable'',
        skinType = ''dry'', stressLevel = ''high'', exerciseFrequency = ''rarely'' \<rparr>) =
     [''Digestive Irregularity (Vishamagni)'', ''Constitutional Weakness'']"
    by code_simp
qed (simp_all add: validHealthParameters_def calculateDoshaProfile_def doshaPoints_sum pointsFor_def
      percentage_div roundedShare_def percentage_zero_total
      calculateLifestyleRisk_def lifestyleRisks_def addRisk_def sleepRisk_def
      exerciseRisk_def stressRisk_def screenRisk_def waterRisk_def mealRisk_def
      Math_max_def Math_min_def num_gt_def num_sub_def array_sort_def)

text \<open>
  C2, amended: the three functions check nothing and reject no input object whose
  numeric attributes are numbers (\<^verbatim>\<open>NaN\<close> and the infinities included) and whose
  enumerated attributes are strings, whatever their values.
  \<^verbatim>\<open>calculateDoshaProfile\<close> adds up the six rows of the
  weight table, where a value outside the set of its row adds no point to any
  accumulator, and never reads age, weight, height or the exercise frequency; its three
  percentages are \<^verbatim>\<open>NaN\<close> when none of the six scored attributes has a value of its
  set, and integers between 0 and 100 otherwise.  No finding of \<^verbatim>\<open>predictDiseases\<close> has
  the probability \<^verbatim>\<open>NaN\<close>, and the overall risk of \<^verbatim>\<open>calculateLifestyleRisk\<close> is a
  number between 0 and 100.  (The statement is about input objects.  A call that passes
  \<^verbatim>\<open>undefined\<close> or \<^verbatim>\<open>null\<close> where an object is expected stops with a
  \<^verbatim>\<open>TypeError\<close> at the first property read; that is no check of the attributes
  either, and such a call is not an input of the model.)
\<close>

theorem no_input_rejected:
  "doshaPoints params =
     addPoints (rowPoints bodyTemperatureWeights (bodyTemperature params))
    (addPoints (rowPoints digestionWeights (digestion params))
    (addPoints (rowPoints sleepPatternWeights (sleepPattern params))
    (addPoints (rowPoints energyLevelWeights (energyLevel params))
    (addPoints (rowPoints skinTypeWeights (skinType params))
               (rowPoints stressLevelWeights (stressLevel params)))))) \<and>
   (if noScoredAttribute params
    then calculateDoshaProfile params = \<lparr> vata = NaN, pitta = NaN, kapha = NaN \<rparr>
    else \<exists>a b c :: int.
      calculateDoshaProfile params =
        \<lparr> vata = Num (of_int a), pitta = Num (of_int b), kapha = Num (of_int c) \<rparr> \<and>
      0 \<le> a \<and> a \<le> 100 \<and> 0 \<le> b \<and> b \<le> 100 \<and> 0 \<le> c \<and> c \<le> 100) \<and>
   (\<forall>a w h e.
      calculateDoshaProfile (params\<lparr>age := a, weight := w, height := h, exerciseFrequency := e\<rparr>)
        = calculateDoshaProfile params) \<and>
   list_all (\<lambda>f. probability f \<noteq> NaN) (predictDiseases doshaScores lifestyle params) \<and>
   (\<exists>r. overallRisk (calculateLifestyleRisk lifestyle params) = Num r \<and> 0 \<le> r \<and> r \<le> 100)"
proof (intro conjI)
  show "doshaPoints params =
     addPoints (rowPoints bodyTemperatureWeights (bodyTemperature params))
    (addPoints (rowPoints digestionWeights (digestion params))
    (addPoints (rowPoints sleepPatternWeights (sleepPattern params))
    (addPoints (rowPoints energyLevelWeights (energyLevel params))
    (addPoints (rowPoints skinTypeWeights (skinType params))
               (rowPoints stressLevelWeights (stressLevel params))))))"
    by (rule doshaPoints_rows)
  show "if noScoredAttribute params
    then calculateDoshaProfile params = \<lparr> vata = NaN, pitta = NaN, kapha = NaN \<rparr>
    else \<exists>a b c :: int.
      calculateDoshaProfile params =
        \<lparr> vata = Num (of_int a), pitta = Num (of_int b), kapha = Num (of_int c) \<rparr> \<and>
      0 \<le> a \<and> a \<le> 100 \<and> 0 \<le> b \<and> b \<le> 100 \<and> 0 \<le> c \<and> c \<le> 100"
    using profile_zero_total [of params] profile_positive_total [of params]
    unfolding totalPoints_zero by (cases "noScoredAttribute params") simp_all
  show "\<forall>a w h e.
      calculateDoshaProfile (params\<lparr>age := a, weight := w, height := h, exerciseFrequency := e\<rparr>)
        = calculateDoshaProfile params"
    by (simp add: profile_ignores_numbers)
  show "list_all (\<lambda>f. probability f \<noteq> NaN) (predictDiseases doshaScores lifestyle params)"
    using predictions_defined [of doshaScores lifestyle params]
    by (simp add: predictDiseases_def list_all_iff set_array_sort del: onGrid.simps(1))
  show "\<exists>r. overallRisk (calculateLifestyleRisk lifestyle params) = Num r \<and> 0 \<le> r \<and> r \<le> 100"
    using Math_min_100 [OF lifestyleRisks_nonNegative [of lifestyle params]]
    by (simp add: calculateLifestyleRisk_def case_prod_beta)
qed

theorem no_input_rejected_witness:
  "noScoredAttribute
     \<lparr> age = NaN, weight = Num 0, height = Num 0, bodyTemperature = ''hot'',
       digestion = ''fast'', sleepPattern = ''none'', energyLevel = ''low'',
       skinType = ''mixed'', stressLevel = ''extreme'', exerciseFrequency = ''never'' \<rparr> \<and>
   doshaPoints
     \<lparr> age = NaN, weight = Num 0, height = Num 0, bodyTemperature = ''hot'',
       digestion = ''fast'', sleepPattern = ''none'', energyLevel = ''low'',
       skinType = ''mixed'', stressLevel = ''extreme'', exerciseFrequency = ''never'' \<rparr> = (0, 0, 0) \<and>
   calculateDoshaProfile
     \<lparr> age = NaN, weight = Num 0, height = Num 0, bodyTemperature = ''hot'',
       digestion = ''fast'', sleepPattern = ''none'', energyLevel = ''low'',
       skinType = ''mixed'', stressLevel = ''extreme'', exerciseFrequency = ''never'' \<rparr> =
     \<lparr> vata = NaN, pitta = NaN, kapha = NaN \<rparr>"
proof -
  have t: "noScoredAttribute
     \<lparr> age = NaN, weight = Num 0, height = Num 0, bodyTemperature = ''hot'',
       digestion = ''fast'', sleepPattern = ''none'', energyLevel = ''low'',
       skinType = ''mixed'', stressLevel = ''extreme'', exerciseFrequency = ''never'' \<rparr>"
    by (simp add: noScoredAttribute_def)
  have r: "rowPoints bodyTemperatureWeights ''hot'' = (0, 0, 0)"
    "rowPoints digestionWeights ''fast'' = (0, 0, 0)"
    "rowPoints sleepPatternWeights ''none'' = (0, 0, 0)"
    "rowPoints energyLevelWeights ''low'' = (0, 0, 0)"
    "rowPoints skinTypeWeights ''mixed'' = (0, 0, 0)"
    "rowPoints stressLevelWeights ''extreme'' = (0, 0, 0)"
    by (simp_all add: rowPoints_def bodyTemperatureWeights_def digestionWeights_def
        sleepPatternWeights_def energyLevelWeights_def skinTypeWeights_def stressLevelWeights_def)
  from no_input_rejected [of "\<lparr> age = NaN, weight = Num 0, height = Num 0, bodyTemperature = ''hot'',
       digestion = ''fast'', sleepPattern = ''none'', energyLevel = ''low'',
       skinType = ''mixed'', stressLevel = ''extreme'', exerciseFrequency = ''never'' \<rparr>"]
  have "doshaPoints
     \<lparr> age = NaN, weight = Num 0, height = Num 0, bodyTemperature = ''hot'',
       digestion = ''fast'', sleepPattern = ''none'', energyLevel = ''low'',
       skinType = ''mixed'', stressLevel = ''extreme'', exerciseFrequency = ''never'' \<rparr> = (0, 0, 0) \<and>
   calculateDoshaProfile
     \<lparr> age = NaN, weight = Num 0, height = Num 0, bodyTemperature = ''hot'',
       digestion = ''fast'', sleepPattern = ''none'', energyLevel = ''low'',
       skinType = ''mixed'', stressLevel = ''extreme'', exerciseFrequency = ''never'' \<rparr> =
     \<lparr> vata = NaN, pitta = NaN, kapha = NaN \<rparr>"
    unfolding if_P [OF t] by (simp add: r)
  with t show ?thesis by (rule conjI)
qed

subsection \<open>C3: the worked example of the specification\<close>

text \<open>
  Claim C3 says of the input with cold, irregular, light, variable, dry, high that the
  accumulators are A = 13, B = 0, C = 1 with total 14, and that the first percentage is
  93.  No statement of the code adds to the third accumulator on this input: the
  temperature is cold, not neutral.
\<close>

theorem example_profile_counterexample:
  "doshaPoints
     \<lparr> age = Num 30, weight = Num 70, height = Num 170, bodyTemperature = ''cold'',
       digestion = ''irregular'', sleepPattern = ''light'', energyLevel = ''variable'',
       skinType = ''dry'', stressLevel = ''high'', exerciseFrequency = ''rarely'' \<rparr> \<noteq> (13, 0, 1) \<and>
   totalPoints
     \<lparr> age = Num 30, weight = Num 70, height = Num 170, bodyTemperature = ''cold'',
       digestion = ''irregular'', sleepPattern = ''light'', energyLevel = ''variable'',
       skinType = ''dry'', stressLevel = ''high'', exerciseFrequency = ''rarely'' \<rparr> \<noteq> 14 \<and>
   vata (calculateDoshaProfile
     \<lparr> age = Num 30, weight = Num 70, height = Num 170, bodyTemperature = ''cold'',
       digestion = ''irregular'', sleepPattern = ''light'', energyLevel = ''variable'',
       skinType = ''dry'', stressLevel = ''high'', exerciseFrequency = ''rarely'' \<rparr>) \<noteq> Num 93"
  by (simp add: doshaPoints_sum pointsFor_def totalPoints_def calculateDoshaProfile_def
      percentage_div roundedShare_def)

text \<open>
  C3, amended: on that input the accumulators are A = 13, B = 0, C = 0 with total 13, the
  first percentage is \<open>round(13 / 13 * 100) = 100\<close>, the other two are 0, and the three
  sum to 100.
\<close>

theorem example_profile:
  "doshaPoints
     \<lparr> age = Num 30, weight = Num 70, height = Num 170, bodyTemperature = ''cold'',
       digestion = ''irregular'', sleepPattern = ''light'', energyLevel = ''variable'',
       skinType = ''dry'', stressLevel = ''high'', exerciseFrequency = ''rarely'' \<rparr> = (13, 0, 0) \<and>
   totalPoints
     \<lparr> age = Num 30, weight = Num 70, height = Num 170, bodyTemperature = ''cold'',
       digestion = ''irregular'', sleepPattern = ''light'', energyLevel = ''variable'',
       skinType = ''dry'', stressLevel = ''high'', exerciseFrequency = ''rarely'' \<rparr> = 13 \<and>
   percentage 13 13 = Num 100 \<and>
   calculateDoshaProfile
     \<lparr> age = Num 30, weight = Num 70, height = Num 170, bodyTemperature = ''cold'',
       digestion = ''irregular'', sleepPattern = ''light'', energyLevel = ''variable'',
       skinType = ''dry'', stressLevel = ''high'', exerciseFrequency = ''rarely'' \<rparr> = \<lparr> vata = Num 100, pitta = Num 0, kapha = Num 0 \<rparr> \<and>
   scoreSum (calculateDoshaProfile
     \<lparr> age = Num 30, weight = Num 70, height = Num 170, bodyTemperature = ''cold'',
       digestion = ''irregular'', sleepPattern = ''light'', energyLevel = ''variable'',
       skinType = ''dry'', stressLevel = ''high'', exerciseFrequency = ''rarely'' \<rparr>) = Num 100"
  by (simp add: doshaPoints_sum pointsFor_def totalPoints_def calculateDoshaProfile_def
      percentage_div roundedShare_def scoreSum_def)

subsection \<open>C4: the weight table\<close>

text \<open>
  Claim C4 says that each of the seven categorical attributes adds 1, 2 or 3 points to
  exactly one accumulator.  The code scores six of them; the exercise frequency adds
  nothing: on the input below the six rows of the table account for all 13 points, and
  the three exercise frequencies give the same accumulators.
\<close>

theorem exerciseFrequency_unscored_counterexample:
  "validHealthParameters
     \<lparr> age = Num 30, weight = Num 70, height = Num 170, bodyTemperature = ''cold'',
       digestion = ''irregular'', sleepPattern = ''light'', energyLevel = ''variable'',
       skinType = ''dry'', stressLevel = ''high'', exerciseFrequency = ''daily'' \<rparr> \<and>
   validHealthParameters
     \<lparr> age = Num 30, weight = Num 70, height = Num 170, bodyTemperature = ''cold'',
       digestion = ''irregular'', sleepPattern = ''light'', energyLevel = ''variable'',
       skinType = ''dry'', stressLevel = ''high'', exerciseFrequency = ''weekly'' \<rparr> \<and>
   validHealthParameters
     \<lparr> age = Num 30, weight = Num 70, height = Num 170, bodyTemperature = ''cold'',
       digestion = ''irregular'', sleepPattern = ''light'', energyLevel = ''variable'',
       skinType = ''dry'', stressLevel = ''high'', exerciseFrequency = ''rarely'' \<rparr> \<and>
   doshaPoints
     \<lparr> age = Num 30, weight = Num 70, height = Num 170, bodyTemperature = ''cold'',
       digestion = ''irregular'', sleepPattern = ''light'', energyLevel = ''variable'',
       skinType = ''dry'', stressLevel = ''high'', exerciseFrequency = ''daily'' \<rparr> = (13, 0, 0) \<and>
   doshaPoints
     \<lparr> age = Num 30, weight = Num 70, height = Num 170, bodyTemperature = ''cold'',
       digestion = ''irregular'', sleepPattern = ''light'', energyLevel = ''variable'',
       skinType = ''dry'', stressLevel = ''high'', exerciseFrequency = ''weekly'' \<rparr> = (13, 0, 0) \<and>
   doshaPoints
     \<lparr> age = Num 30, weight = Num 70, height = Num 170, bodyTemperature = ''cold'',
       digestion = ''irregular'', sleepPattern = ''light'', energyLevel = ''variable'',
       skinType = ''dry'', stressLevel = ''high'', exerciseFrequency = ''rarely'' \<rparr> = (13, 0, 0) \<and>
   addPoints (2, 0, 0) (addPoints (3, 0, 0) (addPoints (2, 0, 0) (addPoints (2, 0, 0)
     (addPoints (2, 0, 0) (2, 0, 0))))) = (13, 0, 0)"
  by (simp add: validHealthParameters_def doshaPoints_sum pointsFor_def)

text \<open>
  C4, amended: for every valid input each of the six attributes of the weight table
  (body temperature, digestion, sleep pattern, energy level, skin type, stress level) adds
  the 1, 2 or 3 points of its row to exactly one accumulator, the accumulators are the
  sum of these six rows, and age, weight, height and the exercise frequency contribute
  nothing.
\<close>

theorem doshaPoints_weight_table:
  assumes "validHealthParameters params"
  shows "\<exists>r1 r2 r3 r4 r5 r6.
    bodyTemperatureWeights (bodyTemperature params) = Some r1 \<and> oneAccumulator r1 \<and>
    digestionWeights (digestion params) = Some r2 \<and> oneAccumulator r2 \<and>
    sleepPatternWeights (sleepPattern params) = Some r3 \<and> oneAccumulator r3 \<and>
    energyLevelWeights (energyLevel params) = Some r4 \<and> oneAccumulator r4 \<and>
    skinTypeWeights (skinType params) = Some r5 \<and> oneAccumulator r5 \<and>
    stressLevelWeights (stressLevel params) = Some r6 \<and> oneAccumulator r6 \<and>
    doshaPoints params =
      addPoints r1 (addPoints r2 (addPoints r3 (addPoints r4 (addPoints r5 r6)))) \<and>
    (\<forall>a w h e. doshaPoints (params\<lparr>age := a, weight := w, height := h, exerciseFrequency := e\<rparr>)
       = doshaPoints params)"
proof -
  have dom: "bodyTemperature params \<in> {''cold'', ''neutral'', ''warm''}"
    "digestion params \<in> {''irregular'', ''strong'', ''slow''}"
    "sleepPattern params \<in> {''light'', ''moderate'', ''deep''}"
    "energyLevel params \<in> {''variable'', ''high'', ''steady''}"
    "skinType params \<in> {''dry'', ''oily'', ''normal''}"
    "stressLevel params \<in> {''high'', ''moderate'', ''low''}"
    using assms by (simp_all only: validHealthParameters_def)
  note w = weights_bodyTemperature [OF dom(1)] weights_digestion [OF dom(2)]
    weights_sleepPattern [OF dom(3)] weights_energyLevel [OF dom(4)]
    weights_skinType [OF dom(5)] weights_stressLevel [OF dom(6)]
  have indep: "\<forall>a w h e. doshaPoints (params\<lparr>age := a, weight := w, height := h, exerciseFrequency := e\<rparr>)
       = doshaPoints params"
    by (simp add: doshaPoints_sum)
  have sum: "doshaPoints params =
      addPoints (pointsFor (bodyTemperature params) ''cold'' 2, pointsFor (bodyTemperature params) ''warm'' 2, pointsFor (bodyTemperature params) ''neutral'' 1)
      (addPoints (pointsFor (digestion params) ''irregular'' 3, pointsFor (digestion params) ''strong'' 3, pointsFor (digestion params) ''slow'' 3)
      (addPoints (pointsFor (sleepPattern params) ''light'' 2, pointsFor (sleepPattern params) ''moderate'' 2, pointsFor (sleepPattern params) ''deep'' 2)
      (addPoints (pointsFor (energyLevel params) ''variable'' 2, pointsFor (energyLevel params) ''high'' 2, pointsFor (energyLevel params) ''steady'' 2)
      (addPoints (pointsFor (skinType params) ''dry'' 2, pointsFor (skinType params) ''oily'' 2, pointsFor (skinType params) ''normal'' 1)
         (pointsFor (stressLevel params) ''high'' 2, pointsFor (stressLevel params) ''moderate'' 1, pointsFor (stressLevel params) ''low'' 1)))))"
    unfolding doshaPoints_sum by simp
  from w sum indep show ?thesis by blast
qed

theorem doshaPoints_weight_table_witness:
  "validHealthParameters
     \<lparr> age = Num 30, weight = Num 70, height = Num 170, bodyTemperature = ''cold'',
       digestion = ''irregular'', sleepPattern = ''light'', energyLevel = ''variable'',
       skinType = ''dry'', stressLevel = ''high'', exerciseFrequency = ''rarely'' \<rparr> \<and>
   (\<exists>r1 r2 r3 r4 r5 r6.
    bodyTemperatureWeights (bodyTemperature 
     (\<lparr> age = Num 30, weight = Num 70, height = Num 170, bodyTemperature = ''cold'',
       digestion = ''irregular'', sleepPattern = ''light'', energyLevel = ''variable'',
       skinType = ''dry'', stressLevel = ''high'', exerciseFrequency = ''rarely'' \<rparr>)) = Some r1 \<and> oneAccumulator r1 \<and>
    digestionWeights (digestion 
     (\<lparr> age = Num 30, weight = Num 70, height = Num 170, bodyTemperature = ''cold'',
       digestion = ''irregular'', sleepPattern = ''light'', energyLevel = ''variable'',
       skinType = ''dry'', stressLevel = ''high'', exerciseFrequency = ''rarely'' \<rparr>)) = Some r2 \<and> oneAccumulator r2 \<and>
    sleepPatternWeights (sleepPattern 
     (\<lparr> age = Num 30, weight = Num 70, height = Num 170, bodyTemperature = ''cold'',
       digestion = ''irregular'', sleepPattern = ''light'', energyLevel = ''variable'',
       skinType = ''dry'', stressLevel = ''high'', exerciseFrequency = ''rarely'' \<rparr>)) = Some r3 \<and> oneAccumulator r3 \<and>
    energyLevelWeights (energyLevel 
     (\<lparr> age = Num 30, weight = Num 70, height = Num 170, bodyTemperature = ''cold'',
       digestion = ''irregular'', sleepPattern = ''light'', energyLevel = ''variable'',
       skinType = ''dry'', stressLevel = ''high'', exerciseFrequency = ''rarely'' \<rparr>)) = Some r4 \<and> oneAccumulator r4 \<and>
    skinTypeWeights (skinType 
     (\<lparr> age = Num 30, weight = Num 70, height = Num 170, bodyTemperature = ''cold'',
       digestion = ''irregular'', sleepPattern = ''light'', energyLevel = ''variable'',
       skinType = ''dry'', stressLevel = ''high'', exerciseFrequency = ''rarely'' \<rparr>)) = Some r5 \<and> oneAccumulator r5 \<and>
    stressLevelWeights (stressLevel 
     (\<lparr> age = Num 30, weight = Num 70, height = Num 170, bodyTemperature = ''cold'',
       digestion = ''irregular'', sleepPattern = ''light'', energyLevel = ''variable'',
       skinType = ''dry'', stressLevel = ''high'', exerciseFrequency = ''rarely'' \<rparr>)) = Some r6 \<and> oneAccumulator r6 \<and>
    doshaPoints 
     (\<lparr> age = Num 30, weight = Num 70, height = Num 170, bodyTemperature = ''cold'',
       digestion = ''irregular'', sleepPattern = ''light'', energyLevel = ''variable'',
       skinType = ''dry'', stressLevel = ''high'', exerciseFrequency = ''rarely'' \<rparr>) =
      addPoints r1 (addPoints r2 (addPoints r3 (addPoints r4 (addPoints r5 r6)))) \<and>
    (\<forall>a w h e. doshaPoints (
     (\<lparr> age = Num 30, weight = Num 70, height = Num 170, bodyTemperature = ''cold'',
       digestion = ''irregular'', sleepPattern = ''light'', energyLevel = ''variable'',
       skinType = ''dry'', stressLevel = ''high'', exerciseFrequency = ''rarely'' \<rparr>)\<lparr>age := a, weight := w, height := h, exerciseFrequency := e\<rparr>)
       = doshaPoints 
     (\<lparr> age = Num 30, weight = Num 70, height = Num 170, bodyTemperature = ''cold'',
       digestion = ''irregular'', sleepPattern = ''light'', energyLevel = ''variable'',
       skinType = ''dry'', stressLevel = ''high'', exerciseFrequency = ''rarely'' \<rparr>)))"
proof -
  have v: "validHealthParameters
     \<lparr> age = Num 30, weight = Num 70, height = Num 170, bodyTemperature = ''cold'',
       digestion = ''irregular'', sleepPattern = ''light'', energyLevel = ''variable'',
       skinType = ''dry'', stressLevel = ''high'', exerciseFrequency = ''rarely'' \<rparr>"
    by (simp add: validHealthParameters_def)
  from v doshaPoints_weight_table [OF v] show ?thesis by (rule conjI)
qed

subsection \<open>C5: the findings are sorted by descending probability, stably\<close>

text \<open>
  Claim C5: for every input the list returned by \<^verbatim>\<open>predictDiseases\<close> descends in
  probability, the findings of one probability stand in the order in which they were
  appended to the array \<open>predictions\<close>, and that array lists its findings in the order
  of the rules.  The probabilities are the binary64 numbers that the code computes:
  every one of them is a number, and the difference of two different binary64 numbers
  does not round to zero, so the comparator \<^verbatim>\<open>b.probability - a.probability\<close> orders
  them as \<open><\<close> does.
\<close>

theorem predictDiseases_sorted_stable:
  "sorted_wrt (\<lambda>a b. num_le (probability b) (probability a)) (predictDiseases doshaScores lifestyle params) \<and>
   (\<forall>v. filter (\<lambda>f. probability f = v) (predictDiseases doshaScores lifestyle params) =
        filter (\<lambda>f. probability f = v) (predictions doshaScores lifestyle params)) \<and>
   subseq (map disease (predictions doshaScores lifestyle params)) ruleOrder"
proof -
  have cmp: "byProbability = (\<lambda>a b. num_sub (probability b) (probability a))"
    by (simp add: byProbability_def fun_eq_iff)
  have "sorted_wrt (\<lambda>a b. num_le (probability b) (probability a))
      (array_sort byProbability (predictions doshaScores lifestyle params))"
    unfolding cmp using predictions_defined by (rule sorted_array_sort)
  moreover have "filter (\<lambda>f. probability f = v) (array_sort byProbability (predictions doshaScores lifestyle params))
      = filter (\<lambda>f. probability f = v) (predictions doshaScores lifestyle params)" for v
    unfolding cmp by (rule filter_array_sort)
  ultimately show ?thesis
    by (simp add: predictDiseases_def predictions_rule_order)
qed

subsection \<open>C6: the overall risk lies between 0 and 100\<close>

text \<open>
  Claim C6: for every input, not a number and the infinities included, the overall risk
  of \<^verbatim>\<open>calculateLifestyleRisk\<close> is a number between 0 and 100.  On the input of the
  claim (no sleep, rare exercise, no stress management under high stress, 24 hours of
  screen time, low water intake, irregular meals) the six terms add up to
  \<open>70 + 30 + 25 + 30 + 15 + 20 = 190\<close> and the overall risk is capped at 100.
\<close>

theorem overallRisk_range:
  "(\<exists>r. overallRisk (calculateLifestyleRisk lifestyle params) = Num r \<and> 0 \<le> r \<and> r \<le> 100) \<and>
   snd (lifestyleRisks
     \<lparr> diet = ''vegetarian'', mealTiming = ''irregular'', waterIntake = ''low'',
       sleepHours = Num 0, exerciseMinutes = Num 0, stressManagement = ''none'',
       screenTime = Num 24, lifestyle_exerciseFrequency = Some ''rarely'' \<rparr>
     \<lparr> age = Num 30, weight = Num 70, height = Num 170, bodyTemperature = ''cold'',
       digestion = ''irregular'', sleepPattern = ''light'', energyLevel = ''variable'',
       skinType = ''dry'', stressLevel = ''high'', exerciseFrequency = ''rarely'' \<rparr>) = Num 190 \<and>
   overallRisk (calculateLifestyleRisk
     \<lparr> diet = ''vegetarian'', mealTiming = ''irregular'', waterIntake = ''low'',
       sleepHours = Num 0, exerciseMinutes = Num 0, stressManagement = ''none'',
       screenTime = Num 24, lifestyle_exerciseFrequency = Some ''rarely'' \<rparr>
     \<lparr> age = Num 30, weight = Num 70, height = Num 170, bodyTemperature = ''cold'',
       digestion = ''irregular'', sleepPattern = ''light'', energyLevel = ''variable'',
       skinType = ''dry'', stressLevel = ''high'', exerciseFrequency = ''rarely'' \<rparr>) = Num 100"
proof (intro conjI)
  show "\<exists>r. overallRisk (calculateLifestyleRisk lifestyle params) = Num r \<and> 0 \<le> r \<and> r \<le> 100"
    using Math_min_100 [OF lifestyleRisks_nonNegative [of lifestyle params]]
    by (simp add: calculateLifestyleRisk_def case_prod_beta)
qed (simp_all add: calculateLifestyleRisk_def lifestyleRisks_def addRisk_def sleepRisk_def
      exerciseRisk_def stressRisk_def screenRisk_def waterRisk_def mealRisk_def
      Math_max_def Math_min_def num_sub_def num_gt_def)

subsection \<open>C7: a probability above 1\<close>

text \<open>
  Claim C7: the rule formulas do not clamp the probabilities.  The valid input below has
  the profile (100, 0, 0); with high stress and five hours of sleep the first finding has
  the probability \<^verbatim>\<open>0.65 + 100 / 200 = 1.15\<close> (the binary64 number
  \<open>2589569785738035 / 2\<^sup>5\<^sup>1\<close>), which is greater than 1; the second has
  \<^verbatim>\<open>0.55 + 100 / 250 = 0.9500000000000001\<close>.
\<close>

theorem probability_above_one:
  "validHealthParameters
     \<lparr> age = Num 30, weight = Num 70, height = Num 170, bodyTemperature = ''cold'',
       digestion = ''irregular'', sleepPattern = ''light'', energyLevel = ''variable'',
       skinType = ''dry'', stressLevel = ''high'', exerciseFrequency = ''rarely'' \<rparr> \<and>
   calculateDoshaProfile
     \<lparr> age = Num 30, weight = Num 70, height = Num 170, bodyTemperature = ''cold'',
       digestion = ''irregular'', sleepPattern = ''light'', energyLevel = ''variable'',
       skinType = ''dry'', stressLevel = ''high'', exerciseFrequency = ''rarely'' \<rparr> =
     \<lparr> vata = Num 100, pitta = Num 0, kapha = Num 0 \<rparr> \<and>
   map (\<lambda>f. (disease f, probability f))
     (predictDiseases \<lparr> vata = Num 100, pitta = Num 0, kapha = Num 0 \<rparr>
        \<lparr> diet = ''vegetarian'', mealTiming = ''regular'', waterIntake = ''high'',
          sleepHours = Num 5, exerciseMinutes = Num 30, stressManagement = ''yoga'',
          screenTime = Num 4, lifestyle_exerciseFrequency = None \<rparr>
        \<lparr> age = Num 30, weight = Num 70, height = Num 170, bodyTemperature = ''cold'',
          digestion = ''irregular'', sleepPattern = ''light'', energyLevel = ''variable'',
          skinType = ''dry'', stressLevel = ''high'', exerciseFrequency = ''rarely'' \<rparr>) =
     [(''Anxiety & Sleep Disorders'', Num (2589569785738035 / 2251799813685248)),
      (''Digestive Irregularity (Vishamagni)'', Num (8556839292003943 / 9007199254740992)),
      (''Sleep Deprivation Syndrome'', Num (3 / 4)),
      (''Constitutional Weakness'', Num (1 / 2))] \<and>
   num_gt (Num (2589569785738035 / 2251799813685248)) (Num 1)"
proof (intro conjI)
  show "map (\<lambda>f. (disease f, probability f))
     (predictDiseases \<lparr> vata = Num 100, pitta = Num 0, kapha = Num 0 \<rparr>
        \<lparr> diet = ''vegetarian'', mealTiming = ''regular'', waterIntake = ''high'',
          sleepHours = Num 5, exerciseMinutes = Num 30, stressManagement = ''yoga'',
          screenTime = Num 4, lifestyle_exerciseFrequency = None \<rparr>
        \<lparr> age = Num 30, weight = Num 70, height = Num 170, bodyTemperature = ''cold'',
          digestion = ''irregular'', sleepPattern = ''light'', energyLevel = ''variable'',
          skinType = ''dry'', stressLevel = ''high'', exerciseFrequency = ''rarely'' \<rparr>) =
     [(''Anxiety & Sleep Disorders'', Num (2589569785738035 / 2251799813685248)),
      (''Digestive Irregularity (Vishamagni)'', Num (8556839292003943 / 9007199254740992)),
      (''Sleep Deprivation Syndrome'', Num (3 / 4)),
      (''Constitutional Weakness'', Num (1 / 2))]"
    by code_simp
qed (simp_all add: validHealthParameters_def calculateDoshaProfile_def doshaPoints_sum pointsFor_def
      percentage_div roundedShare_def num_gt_def)

subsection \<open>C8: the total is positive\<close>

text \<open>
  Claim C8: for every valid input the sum of the three accumulators is strictly
  positive, so the normalisation never divides by zero and no percentage is
  \<^verbatim>\<open>NaN\<close>.
\<close>

theorem total_positive:
  assumes "validHealthParameters params"
  shows "0 < totalPoints params \<and>
    vata (calculateDoshaProfile params) \<noteq> NaN \<and>
    pitta (calculateDoshaProfile params) \<noteq> NaN \<and>
    kapha (calculateDoshaProfile params) \<noteq> NaN"
proof -
  obtain v p k where pts: "doshaPoints params = (v, p, k)"
    by (cases "doshaPoints params") auto
  have pos: "0 < v + p + k"
    using valid_total_bounds [OF assms pts] by linarith
  from pts pos show ?thesis
    by (simp add: totalPoints_def profile_of_points)
qed

theorem total_positive_witness:
  "validHealthParameters
     \<lparr> age = Num 30, weight = Num 70, height = Num 170, bodyTemperature = ''cold'',
       digestion = ''irregular'', sleepPattern = ''light'', energyLevel = ''variable'',
       skinType = ''dry'', stressLevel = ''high'', exerciseFrequency = ''rarely'' \<rparr> \<and>
   (0 < totalPoints
     (\<lparr> age = Num 30, weight = Num 70, height = Num 170, bodyTemperature = ''cold'',
       digestion = ''irregular'', sleepPattern = ''light'', energyLevel = ''variable'',
       skinType = ''dry'', stressLevel = ''high'', exerciseFrequency = ''rarely'' \<rparr>) \<and>
    vata (calculateDoshaProfile
     (\<lparr> age = Num 30, weight = Num 70, height = Num 170, bodyTemperature = ''cold'',
       digestion = ''irregular'', sleepPattern = ''light'', energyLevel = ''variable'',
       skinType = ''dry'', stressLevel = ''high'', exerciseFrequency = ''rarely'' \<rparr>)) \<noteq> NaN \<and>
    pitta (calculateDoshaProfile
     (\<lparr> age = Num 30, weight = Num 70, height = Num 170, bodyTemperature = ''cold'',
       digestion = ''irregular'', sleepPattern = ''light'', energyLevel = ''variable'',
       skinType = ''dry'', stressLevel = ''high'', exerciseFrequency = ''rarely'' \<rparr>)) \<noteq> NaN \<and>
    kapha (calculateDoshaProfile
     (\<lparr> age = Num 30, weight = Num 70, height = Num 170, bodyTemperature = ''cold'',
       digestion = ''irregular'', sleepPattern = ''light'', energyLevel = ''variable'',
       skinType = ''dry'', stressLevel = ''high'', exerciseFrequency = ''rarely'' \<rparr>)) \<noteq> NaN)"
proof -
  have v: "validHealthParameters
     \<lparr> age = Num 30, weight = Num 70, height = Num 170, bodyTemperature = ''cold'',
       digestion = ''irregular'', sleepPattern = ''light'', energyLevel = ''variable'',
       skinType = ''dry'', stressLevel = ''high'', exerciseFrequency = ''rarely'' \<rparr>"
    by (simp add: validHealthParameters_def)
  from v total_positive [OF v] show ?thesis by (rule conjI)
qed

subsection \<open>C9: the risk factors\<close>

text \<open>
  Claim C9 says that the list of risk factors holds exactly the terms above zero, each
  with its static impact string, sorted by descending score with ties in evaluation
  order.  The impact string is not fixed by the term for two of the six terms: the
  sleep term carries \<^verbatim>\<open>'Moderate impact'\<close> at a score of 10 and
  \<^verbatim>\<open>'High impact on health'\<close> at a score of 30.
\<close>

theorem impact_not_static_counterexample:
  "riskFactors (calculateLifestyleRisk
     \<lparr> diet = ''vegetarian'', mealTiming = ''regular'', waterIntake = ''high'',
       sleepHours = Num 6, exerciseMinutes = Num 30, stressManagement = ''yoga'',
       screenTime = Num 2, lifestyle_exerciseFrequency = Some ''daily'' \<rparr>
     \<lparr> age = Num 30, weight = Num 70, height = Num 170, bodyTemperature = ''cold'',
       digestion = ''irregular'', sleepPattern = ''light'', energyLevel = ''variable'',
       skinType = ''dry'', stressLevel = ''high'', exerciseFrequency = ''rarely'' \<rparr>) =
     [\<lparr> factor = ''Inadequate Sleep'', impact = ''Moderate impact'', score = Num 10 \<rparr>] \<and>
   riskFactors (calculateLifestyleRisk
     \<lparr> diet = ''vegetarian'', mealTiming = ''regular'', waterIntake = ''high'',
       sleepHours = Num 4, exerciseMinutes = Num 30, stressManagement = ''yoga'',
       screenTime = Num 2, lifestyle_exerciseFrequency = Some ''daily'' \<rparr>
     \<lparr> age = Num 30, weight = Num 70, height = Num 170, bodyTemperature = ''cold'',
       digestion = ''irregular'', sleepPattern = ''light'', energyLevel = ''variable'',
       skinType = ''dry'', stressLevel = ''high'', exerciseFrequency = ''rarely'' \<rparr>) =
     [\<lparr> factor = ''Inadequate Sleep'', impact = ''High impact on health'', score = Num 30 \<rparr>] \<and>
   ''Moderate impact'' \<noteq> ''High impact on health''"
  by (simp add: calculateLifestyleRisk_def lifestyleRisks_def addRisk_def sleepRisk_def
      exerciseRisk_def stressRisk_def screenRisk_def waterRisk_def mealRisk_def
      Math_max_def Math_min_def num_sub_def num_gt_def array_sort_def)

text \<open>
  C9, amended: for every input the list of risk factors holds exactly the terms above
  zero; the impact string is fixed for the stress, screen, water and meal terms, and for
  the sleep and the activity term it is the high-impact string when the score is above
  20 and \<^verbatim>\<open>'Moderate impact'\<close> otherwise; the list descends in score, and the factors
  of one score stand in evaluation order.  The scores are the binary64 numbers that the
  code computes, so two scores are one score exactly when the code finds them equal.
\<close>

theorem riskFactors_positive_terms_sorted:
  "riskFactors (calculateLifestyleRisk lifestyle params) =
     array_sort byScore
       (map (\<lambda>(f, s). \<lparr> factor = f, impact = impactOf f s, score = s \<rparr>)
          (filter (\<lambda>(f, s). num_gt s (Num 0)) (riskTerms lifestyle params))) \<and>
   sorted_wrt (\<lambda>a b. num_le (score b) (score a))
     (riskFactors (calculateLifestyleRisk lifestyle params)) \<and>
   (\<forall>v. filter (\<lambda>e. score e = v) (riskFactors (calculateLifestyleRisk lifestyle params)) =
        map (\<lambda>(f, s). \<lparr> factor = f, impact = impactOf f s, score = s \<rparr>)
          (filter (\<lambda>(f, s). num_gt s (Num 0) \<and> s = v) (riskTerms lifestyle params)))"
proof -
  have cmp: "byScore = (\<lambda>a b. num_sub (score b) (score a))"
    by (simp add: byScore_def fun_eq_iff)
  have rf: "riskFactors (calculateLifestyleRisk lifestyle params) =
      array_sort byScore (fst (lifestyleRisks lifestyle params))"
    by (simp add: calculateLifestyleRisk_def case_prod_beta)
  have "sorted_wrt (\<lambda>a b. num_le (score b) (score a))
      (array_sort byScore (fst (lifestyleRisks lifestyle params)))"
    unfolding cmp using lifestyleRisks_score_defined by (rule sorted_array_sort)
  moreover have "filter (\<lambda>e. score e = v) (array_sort byScore (fst (lifestyleRisks lifestyle params)))
     = map (\<lambda>(f, s). \<lparr> factor = f, impact = impactOf f s, score = s \<rparr>)
          (filter (\<lambda>(f, s). num_gt s (Num 0) \<and> s = v) (riskTerms lifestyle params))" for v
    unfolding cmp filter_array_sort lifestyleRisks_terms
    by (simp add: filter_map comp_def case_prod_unfold)
  ultimately show ?thesis
    unfolding rf by (simp add: lifestyleRisks_terms)
qed

subsection \<open>C10: the dominant score\<close>

text \<open>
  Claim C10: \<^verbatim>\<open>getDominantDosha\<close> returns the label of a maximal score and prefers Vata
  to Pitta to Kapha among equal scores: it answers Vata exactly when the first score is
  at least the other two, Pitta exactly when the second is above the first and at least
  the third, and Kapha otherwise, which for three numbers means that the third is above
  the other two.  (A score that is \<^verbatim>\<open>NaN\<close> is no number and has no place in an order;
  the code then falls through to Kapha.)  Three equal scores give Vata, and a tie of the
  second and third above the first gives Pitta.
\<close>

theorem getDominantDosha_maximum:
  "(getDominantDosha scores = ''Vata'') =
      (num_le (pitta scores) (vata scores) \<and> num_le (kapha scores) (vata scores)) \<and>
   (getDominantDosha scores = ''Pitta'') =
      (num_lt (vata scores) (pitta scores) \<and> num_le (kapha scores) (pitta scores)) \<and>
   (getDominantDosha scores = ''Kapha'') =
      (num_lt (vata scores) (kapha scores) \<and> num_lt (pitta scores) (kapha scores) \<or>
       vata scores = NaN \<or> pitta scores = NaN \<or> kapha scores = NaN) \<and>
   getDominantDosha \<lparr> vata = Num 33, pitta = Num 33, kapha = Num 33 \<rparr> = ''Vata'' \<and>
   getDominantDosha \<lparr> vata = Num 17, pitta = Num 42, kapha = Num 42 \<rparr> = ''Pitta''"
proof (cases "vata scores = NaN \<or> pitta scores = NaN \<or> kapha scores = NaN")
  case True
  have ex: "getDominantDosha \<lparr> vata = Num 33, pitta = Num 33, kapha = Num 33 \<rparr> = ''Vata''"
    "getDominantDosha \<lparr> vata = Num 17, pitta = Num 42, kapha = Num 42 \<rparr> = ''Pitta''"
    by (simp_all add: getDominantDosha_def Math_max3_def Math_max_def num_seq_def)
  from True have "getDominantDosha scores = ''Kapha''" by (rule getDominantDosha_NaN)
  with True ex show ?thesis by (auto simp: num_le_def)
next
  case False
  have ex: "getDominantDosha \<lparr> vata = Num 33, pitta = Num 33, kapha = Num 33 \<rparr> = ''Vata''"
    "getDominantDosha \<lparr> vata = Num 17, pitta = Num 42, kapha = Num 42 \<rparr> = ''Pitta''"
    by (simp_all add: getDominantDosha_def Math_max3_def Math_max_def num_seq_def)
  from False have n: "vata scores \<noteq> NaN" "pitta scores \<noteq> NaN" "kapha scores \<noteq> NaN" by simp_all
  show ?thesis
    using getDominantDosha_numbers [OF n] n ex by simp
qed

end
